theory Spec2Isabelle
  imports Complex_Main "HOL-Library.AList"
begin

section \<open>Toxic comment classification service: data model\<close>

text \<open>
  The service of \<^verbatim>\<open>app.py\<close> has two parts: a classifier adapter around a pretrained
  model, and a feedback table in an SQLite file. The model, the clock and the failures of
  the database file are the environment of the handlers and are passed in explicitly.
  A Python float is a real number, an infinity or NaN, with the comparisons of IEEE 754;
  the rounding of float arithmetic is not modelled, so \<^verbatim>\<open>torch.sigmoid\<close> is a parameter.
  Python integers are unbounded \<open>int\<close>, and the 64-bit range of SQLite integers is
  written out where a Python integer is bound to a statement and where a rowid is chosen.
\<close>

definition LABELS :: "string list" where
  "LABELS = [''toxic'', ''severe_toxic'', ''obscene'', ''threat'', ''insult'', ''identity_hate'']"

text \<open>
  Python's \<^verbatim>\<open>float\<close>. A comparison with NaN on either side is false.
\<close>

datatype pyfloat = Finite real | PosInf | NegInf | NaN

text \<open>\<^verbatim>\<open>a >= b\<close>.\<close>

fun float_ge :: "pyfloat \<Rightarrow> pyfloat \<Rightarrow> bool" where
  "float_ge NaN b = False"
| "float_ge a NaN = False"
| "float_ge PosInf b = True"
| "float_ge a NegInf = True"
| "float_ge (Finite x) (Finite y) = (y \<le> x)"
| "float_ge a b = False"

text \<open>\<^verbatim>\<open>a < b\<close>.\<close>

fun float_lt :: "pyfloat \<Rightarrow> pyfloat \<Rightarrow> bool" where
  "float_lt NaN b = False"
| "float_lt a NaN = False"
| "float_lt PosInf b = False"
| "float_lt a NegInf = False"
| "float_lt (Finite x) (Finite y) = (x < y)"
| "float_lt a b = True"

text \<open>\<^verbatim>\<open>HTTPException(status_code, detail)\<close>: the only exception a handler raises.\<close>

datatype http_exception = HTTPException (status_code: nat) (detail: string)

text \<open>\<^verbatim>\<open>ClassificationResponse\<close>; \<open>probabilities\<close> is a dict, kept in insertion order.\<close>

record classification_response =
  labels :: "string list"
  probabilities :: "(string \<times> pyfloat) list"

text \<open>\<^verbatim>\<open>FeedbackRequest\<close>.\<close>

record feedback_request =
  comment :: string
  expected_labels :: "string list"

text \<open>
  A row of the table \<^verbatim>\<open>feedback\<close>: the label columns are \<^verbatim>\<open>INTEGER\<close>, the timestamp is
  the text the clock value is stored as.
\<close>

record feedback_row =
  row_id :: int
  row_comment :: string
  toxic :: int
  severe_toxic :: int
  obscene :: int
  threat :: int
  insult :: int
  identity_hate :: int
  timestamp :: string

text \<open>
  The database file: the rows of \<^verbatim>\<open>feedback\<close> in the order of a table scan (by rowid),
  and the counter that \<^verbatim>\<open>AUTOINCREMENT\<close> keeps in \<^verbatim>\<open>sqlite_sequence\<close>.
\<close>

record database =
  feedback :: "feedback_row list"
  sqlite_sequence :: int

section \<open>The SQL statements\<close>

text \<open>\<^verbatim>\<open>CREATE TABLE IF NOT EXISTS feedback (...)\<close>: an absent table is created empty.\<close>

definition init_db :: "database option \<Rightarrow> database" where
  "init_db file = (case file of
      None \<Rightarrow> \<lparr>feedback = [], sqlite_sequence = 0\<rparr>
    | Some db \<Rightarrow> db)"

text \<open>
  Binding a Python integer to a \<^verbatim>\<open>?\<close>: the driver converts it to a signed 64-bit integer
  and raises \<^verbatim>\<open>OverflowError\<close> when it does not fit.
\<close>

definition bind_int :: "int \<Rightarrow> string + int" where
  "bind_int i =
     (if - (2 ^ 63) \<le> i \<and> i < 2 ^ 63 then Inr i
      else Inl ''Python int too large to convert to SQLite INTEGER'')"

definition max_rowid :: "feedback_row list \<Rightarrow> int" where
  "max_rowid rs = fold (\<lambda>r m. max (row_id r) m) rs 0"

text \<open>
  \<^verbatim>\<open>INSERT INTO feedback (comment, toxic, ..., identity_hate, timestamp) VALUES (?, ..., ?)\<close>
  with the tuple \<^verbatim>\<open>(comment, *label_values, now)\<close>: eight values are expected, so the
  unpacked list must have six. With \<^verbatim>\<open>AUTOINCREMENT\<close> the new rowid is one more than the
  largest the table ever had; when that was the largest 64-bit integer, SQLite refuses the
  insert (\<^verbatim>\<open>SQLITE_FULL\<close>) and nothing is stored.
\<close>

definition sql_insert :: "database \<Rightarrow> string \<Rightarrow> int list \<Rightarrow> string \<Rightarrow> string + database" where
  "sql_insert db c label_values now =
     (case label_values of
        [v0, v1, v2, v3, v4, v5] \<Rightarrow>
          (let i = max (sqlite_sequence db) (max_rowid (feedback db)) + 1
           in if 2 ^ 63 - 1 < i then Inl ''database or disk is full''
              else
                (let row = \<lparr>row_id = i, row_comment = c,
                            toxic = v0, severe_toxic = v1, obscene = v2,
                            threat = v3, insult = v4, identity_hate = v5,
                            timestamp = now\<rparr>
                 in Inr \<lparr>feedback = feedback db @ [row], sqlite_sequence = i\<rparr>))
      | _ \<Rightarrow> Inl ''Incorrect number of bindings supplied'')"

text \<open>\<^verbatim>\<open>SELECT COUNT(*) FROM feedback\<close>.\<close>

definition sql_count :: "database \<Rightarrow> int" where
  "sql_count db = int (length (feedback db))"

text \<open>
  \<^verbatim>\<open>SELECT ... FROM feedback LIMIT ? OFFSET ?\<close>. In SQLite a negative \<^verbatim>\<open>LIMIT\<close> is no
  limit and a negative \<^verbatim>\<open>OFFSET\<close> is no offset.
\<close>

definition sql_select :: "database \<Rightarrow> int \<Rightarrow> int \<Rightarrow> string + feedback_row list" where
  "sql_select db limit offset =
     (case bind_int limit of
        Inl e \<Rightarrow> Inl e
      | Inr l \<Rightarrow>
          (case bind_int offset of
             Inl e \<Rightarrow> Inl e
           | Inr off \<Rightarrow>
               (let skipped = (if off < 0 then feedback db else drop (nat off) (feedback db))
                in Inr (if l < 0 then skipped else take (nat l) skipped))))"

section \<open>Core logic: \<^verbatim>\<open>classify_comment\<close>\<close>

text \<open>
  \<^verbatim>\<open>.squeeze().tolist()\<close> on the \<open>1 \<times> n\<close> tensor of one input: a tensor with one entry
  becomes a bare float, any other a list.
\<close>

datatype py_probs = Scalar pyfloat | Vector "pyfloat list"

definition squeeze_tolist :: "pyfloat list \<Rightarrow> py_probs" where
  "squeeze_tolist xs = (case xs of [x] \<Rightarrow> Scalar x | _ \<Rightarrow> Vector xs)"

text \<open>\<^verbatim>\<open>probs[i]\<close> for \<open>i \<ge> 0\<close>, with the message of the exception it raises.\<close>

definition subscript :: "py_probs \<Rightarrow> nat \<Rightarrow> string + pyfloat" where
  "subscript probs i =
     (case probs of
        Scalar x \<Rightarrow> Inl (CHR 0x27 # ''float'' @ CHR 0x27 # '' object is not subscriptable'')
      | Vector xs \<Rightarrow> (if i < length xs then Inr (xs ! i) else Inl ''list index out of range''))"

text \<open>
  The dict comprehension \<^verbatim>\<open>{label: float(probs[i]) for i, label in enumerate(LABELS)}\<close>,
  entry by entry; storing under a key keeps the key's place.
\<close>

fun dict_comp :: "py_probs \<Rightarrow> (nat \<times> string) list \<Rightarrow> (string \<times> pyfloat) list
    \<Rightarrow> string + (string \<times> pyfloat) list" where
  "dict_comp probs [] d = Inr d"
| "dict_comp probs ((i, label) # rest) d =
     (case subscript probs i of
        Inl e \<Rightarrow> Inl e
      | Inr p \<Rightarrow> dict_comp probs rest (AList.update label p d))"

text \<open>
  \<open>sigmoid\<close> stands for \<^verbatim>\<open>torch.sigmoid\<close> on one value, and \<open>model\<close> for the tokenizer and
  the model together: it raises (\<open>Inl\<close> the message of the exception) or yields the
  logits of the comment.
\<close>

definition classify_comment ::
    "(pyfloat \<Rightarrow> pyfloat) \<Rightarrow> (string \<Rightarrow> string + pyfloat list) \<Rightarrow> string \<Rightarrow> pyfloat
       \<Rightarrow> http_exception + classification_response" where
  "classify_comment sigmoid model c threshold =
     (case model c of
        Inl e \<Rightarrow> Inl (HTTPException 500 (''Classification error: '' @ e))
      | Inr logits \<Rightarrow>
          (let probs = squeeze_tolist (map sigmoid logits)
           in case dict_comp probs (enumerate 0 LABELS) [] of
                Inl e \<Rightarrow> Inl (HTTPException 500 (''Classification error: '' @ e))
              | Inr predictions \<Rightarrow>
                  (let predicted_labels =
                         map fst (filter (\<lambda>(label, prob). float_ge prob threshold) predictions)
                   in Inr \<lparr>labels = (if predicted_labels = [] then [''none''] else predicted_labels),
                           probabilities = predictions\<rparr>)))"

text \<open>
  What the proofs use of \<^verbatim>\<open>torch.sigmoid\<close>: NaN is mapped to NaN, and every other value
  to a number between 0 and 1 (both ends are reached, by rounding and at the infinities).
\<close>

definition sigmoid_like :: "(pyfloat \<Rightarrow> pyfloat) \<Rightarrow> bool" where
  "sigmoid_like sg \<longleftrightarrow>
     sg NaN = NaN \<and> (\<forall>x. x \<noteq> NaN \<longrightarrow> (\<exists>p. sg x = Finite p \<and> 0 \<le> p \<and> p \<le> 1))"

text \<open>The function that \<^verbatim>\<open>torch.sigmoid\<close> rounds: an instance for concrete inputs.\<close>

definition sigmoid_exact :: "pyfloat \<Rightarrow> pyfloat" where
  "sigmoid_exact x =
     (case x of
        Finite v \<Rightarrow> Finite (1 / (1 + exp (- v)))
      | PosInf \<Rightarrow> Finite 1
      | NegInf \<Rightarrow> Finite 0
      | NaN \<Rightarrow> NaN)"

section \<open>The endpoints\<close>

text \<open>\<^verbatim>\<open>', '.join(xs)\<close>.\<close>

fun join :: "string \<Rightarrow> string list \<Rightarrow> string" where
  "join sep [] = []"
| "join sep [x] = x"
| "join sep (x # y # ys) = x @ sep @ join sep (y # ys)"

text \<open>
  The handlers that use the database take it and give it back. \<open>fault\<close> is what the
  database file does to the request: \<open>Some e\<close> when an SQLite call of the handler raises
  an exception with message \<open>e\<close> (the connection block then rolls back), \<open>None\<close> when
  the file works. \<open>now\<close> is \<^verbatim>\<open>datetime.now()\<close>.
\<close>

definition submit_feedback ::
    "string \<Rightarrow> string option \<Rightarrow> database \<Rightarrow> feedback_request \<Rightarrow> (http_exception + string) \<times> database" where
  "submit_feedback now fault db fb =
     (let invalid_labels =
            filter (\<lambda>label. label \<notin> set LABELS \<and> label \<noteq> ''none'') (expected_labels fb)
      in if invalid_labels \<noteq> [] then
           (Inl (HTTPException 400 (''Invalid labels: '' @ join '', '' invalid_labels)), db)
         else
           (let label_values =
                  map (\<lambda>label. if label \<in> set (expected_labels fb) then 1 else 0) LABELS
            in case fault of
                 Some e \<Rightarrow> (Inl (HTTPException 500 (''Database error: '' @ e)), db)
               | None \<Rightarrow>
                   (case sql_insert db (comment fb) label_values now of
                      Inl e \<Rightarrow> (Inl (HTTPException 500 (''Database error: '' @ e)), db)
                    | Inr db' \<Rightarrow> (Inr ''Feedback stored successfully'', db'))))"

definition get_feedback_stats ::
    "string option \<Rightarrow> database \<Rightarrow> (http_exception + int) \<times> database" where
  "get_feedback_stats fault db =
     (case fault of
        Some e \<Rightarrow> (Inl (HTTPException 500 (''Database error: '' @ e)), db)
      | None \<Rightarrow> (Inr (sql_count db), db))"

definition view_feedback ::
    "string option \<Rightarrow> database \<Rightarrow> int \<Rightarrow> int \<Rightarrow> (http_exception + feedback_row list) \<times> database" where
  "view_feedback fault db limit offset =
     (case fault of
        Some e \<Rightarrow> (Inl (HTTPException 500 (''Failed to retrieve feedback: '' @ e)), db)
      | None \<Rightarrow>
          (case sql_select db limit offset of
             Inl e \<Rightarrow> (Inl (HTTPException 500 (''Failed to retrieve feedback: '' @ e)), db)
           | Inr results \<Rightarrow> (Inr results, db)))"

text \<open>
  The routes of the application, with what the framework does around a handler. A request
  carries what its handler reads; the defaults of \<^verbatim>\<open>threshold\<close>, \<^verbatim>\<open>limit\<close> and \<^verbatim>\<open>offset\<close>
  are those of the signatures.
\<close>

datatype request =
    Root
  | Classify string
  | Submit feedback_request
  | Stats
  | View "int option" "int option"

text \<open>\<^verbatim>\<open>FeedbackResponse\<close>: the label columns as booleans.\<close>

record feedback_response =
  resp_id :: int
  resp_comment :: string
  resp_toxic :: bool
  resp_severe_toxic :: bool
  resp_obscene :: bool
  resp_threat :: bool
  resp_insult :: bool
  resp_identity_hate :: bool
  resp_timestamp :: string

datatype response =
    RedirectResponse string
  | ClassificationResponse classification_response
  | Message string
  | TotalFeedbackEntries int
  | FeedbackEntries "feedback_response list"

text \<open>
  How a request fails: the framework refuses it against the request schema (status 422),
  the handler raises an \<^verbatim>\<open>HTTPException\<close>, or the handler's result cannot be sent (validation
  against \<^verbatim>\<open>response_model\<close>, or JSON encoding, fails: status 500 with no detail).
\<close>

datatype failure = RequestValidationError | Raised http_exception | InternalServerError


text \<open>
  The environment of a request. \<open>parses_datetime\<close> is the framework's test whether a
  stored timestamp text is a \<^verbatim>\<open>datetime\<close>. \<open>nonfinite_as_null\<close> tells what the installed
  JSON encoder does with a NaN or an infinity: it writes \<^verbatim>\<open>null\<close>, or it refuses the value
  (\<^verbatim>\<open>allow_nan=False\<close>).
\<close>

record environment =
  sigmoid :: "pyfloat \<Rightarrow> pyfloat"
  model :: "string \<Rightarrow> string + pyfloat list"
  clock :: string
  db_fault :: "string option"
  parses_datetime :: "string \<Rightarrow> bool"
  nonfinite_as_null :: bool

text \<open>
  \<^verbatim>\<open>ClassificationRequest\<close>: \<^verbatim>\<open>comment\<close> has \<^verbatim>\<open>min_length=1\<close> and \<^verbatim>\<open>max_length=1000\<close>.
\<close>

definition valid_classification_request :: "string \<Rightarrow> bool" where
  "valid_classification_request c \<longleftrightarrow> 1 \<le> length c \<and> length c \<le> 1000"

text \<open>Whether the JSON encoder writes a classification result.\<close>

definition is_finite :: "pyfloat \<Rightarrow> bool" where
  "is_finite p = (case p of Finite x \<Rightarrow> True | _ \<Rightarrow> False)"

definition encodable :: "bool \<Rightarrow> classification_response \<Rightarrow> bool" where
  "encodable as_null r \<longleftrightarrow> as_null \<or> list_all (\<lambda>(label, prob). is_finite prob) (probabilities r)"

text \<open>
  A listed row against \<^verbatim>\<open>FeedbackResponse\<close>: a label column must be 0 or 1 to become a
  boolean, and the timestamp text must be a \<^verbatim>\<open>datetime\<close>.
\<close>

definition validate_entry :: "(string \<Rightarrow> bool) \<Rightarrow> feedback_row \<Rightarrow> feedback_response option" where
  "validate_entry is_datetime r =
     (if list_all (\<lambda>v. v = 0 \<or> v = 1)
           [toxic r, severe_toxic r, obscene r, threat r, insult r, identity_hate r]
         \<and> is_datetime (timestamp r)
      then Some \<lparr>resp_id = row_id r, resp_comment = row_comment r,
                 resp_toxic = (toxic r = 1), resp_severe_toxic = (severe_toxic r = 1),
                 resp_obscene = (obscene r = 1), resp_threat = (threat r = 1),
                 resp_insult = (insult r = 1), resp_identity_hate = (identity_hate r = 1),
                 resp_timestamp = timestamp r\<rparr>
      else None)"

fun handle :: "environment \<Rightarrow> request \<Rightarrow> database \<Rightarrow> (failure + response) \<times> database" where
  "handle env Root db = (Inr (RedirectResponse ''/docs''), db)"
| "handle env (Classify c) db =
     (if \<not> valid_classification_request c then (Inl RequestValidationError, db)
      else case classify_comment (sigmoid env) (model env) c (Finite 0.5) of
             Inl e \<Rightarrow> (Inl (Raised e), db)
           | Inr r \<Rightarrow>
               if encodable (nonfinite_as_null env) r then (Inr (ClassificationResponse r), db)
               else (Inl InternalServerError, db))"
| "handle env (Submit fb) db =
     (case submit_feedback (clock env) (db_fault env) db fb of
        (Inl e, db') \<Rightarrow> (Inl (Raised e), db')
      | (Inr message, db') \<Rightarrow> (Inr (Message message), db'))"
| "handle env Stats db =
     (case get_feedback_stats (db_fault env) db of
        (Inl e, db') \<Rightarrow> (Inl (Raised e), db')
      | (Inr count, db') \<Rightarrow> (Inr (TotalFeedbackEntries count), db'))"
| "handle env (View limit offset) db =
     (case view_feedback (db_fault env) db
             (case limit of None \<Rightarrow> 100 | Some l \<Rightarrow> l)
             (case offset of None \<Rightarrow> 0 | Some off \<Rightarrow> off) of
        (Inl e, db') \<Rightarrow> (Inl (Raised e), db')
      | (Inr results, db') \<Rightarrow>
          (case those (map (validate_entry (parses_datetime env)) results) of
             None \<Rightarrow> (Inl InternalServerError, db')
           | Some entries \<Rightarrow> (Inr (FeedbackEntries entries), db')))"

text \<open>The table is held in rowid order.\<close>

definition table_ok :: "database \<Rightarrow> bool" where
  "table_ok db \<longleftrightarrow> sorted_wrt (<) (map row_id (feedback db))"

section \<open>Auxiliary notions for the proofs\<close>

text \<open>The six entries the dict comprehension builds from a list \<open>xs\<close> of probabilities.\<close>

definition predictions_of :: "pyfloat list \<Rightarrow> (string \<times> pyfloat) list" where
  "predictions_of xs =
     [(''toxic'', xs ! 0), (''severe_toxic'', xs ! 1), (''obscene'', xs ! 2),
      (''threat'', xs ! 3), (''insult'', xs ! 4), (''identity_hate'', xs ! 5)]"

text \<open>The list comprehension that selects the labels at or above the threshold.\<close>

definition select_labels :: "pyfloat \<Rightarrow> (string \<times> pyfloat) list \<Rightarrow> string list" where
  "select_labels t ps = map fst (filter (\<lambda>(label, prob). float_ge prob t) ps)"

text \<open>The labels of a feedback request that \<^verbatim>\<open>submit_feedback\<close> rejects.\<close>

definition invalid_labels_of :: "feedback_request \<Rightarrow> string list" where
  "invalid_labels_of fb =
     filter (\<lambda>label. label \<notin> set LABELS \<and> label \<noteq> ''none'') (expected_labels fb)"

text \<open>
  The row that a valid \<^verbatim>\<open>submit_feedback\<close> inserts into the database \<open>db\<close>, when
  there is a rowid left for it.
\<close>

definition stored_row :: "string \<Rightarrow> database \<Rightarrow> feedback_request \<Rightarrow> feedback_row" where
  "stored_row now db fb =
     \<lparr>row_id = max (sqlite_sequence db) (max_rowid (feedback db)) + 1,
      row_comment = comment fb,
      toxic = (if ''toxic'' \<in> set (expected_labels fb) then 1 else 0),
      severe_toxic = (if ''severe_toxic'' \<in> set (expected_labels fb) then 1 else 0),
      obscene = (if ''obscene'' \<in> set (expected_labels fb) then 1 else 0),
      threat = (if ''threat'' \<in> set (expected_labels fb) then 1 else 0),
      insult = (if ''insult'' \<in> set (expected_labels fb) then 1 else 0),
      identity_hate = (if ''identity_hate'' \<in> set (expected_labels fb) then 1 else 0),
      timestamp = now\<rparr>"

text \<open>A value between 0 and 1, by Python's comparisons.\<close>

definition in_unit_interval :: "pyfloat \<Rightarrow> bool" where
  "in_unit_interval p \<longleftrightarrow> float_ge p (Finite 0) \<and> float_ge (Finite 1) p"

text \<open>The largest rowid the table ever had.\<close>

definition last_rowid :: "database \<Rightarrow> int" where
  "last_rowid db = max (sqlite_sequence db) (max_rowid (feedback db))"

section \<open>The classifier adapter\<close>

lemma enumerate_LABELS:
  "enumerate 0 LABELS =
     [(0, ''toxic''), (1, ''severe_toxic''), (2, ''obscene''),
      (3, ''threat''), (4, ''insult''), (5, ''identity_hate'')]"
  by (simp add: LABELS_def)

lemma distinct_LABELS: "distinct LABELS"
  by (simp add: LABELS_def)

lemma none_not_label: "''none'' \<notin> set LABELS"
  by (simp add: LABELS_def)

lemma dict_comp_vector:
  "6 \<le> length xs \<Longrightarrow> dict_comp (Vector xs) (enumerate 0 LABELS) [] = Inr (predictions_of xs)"
  by (auto simp add: enumerate_LABELS subscript_def predictions_of_def)

lemma dict_comp_short:
  "length xs < 6 \<Longrightarrow>
   dict_comp (Vector xs) (enumerate 0 LABELS) [] = Inl ''list index out of range''"
  by (auto simp add: enumerate_LABELS subscript_def)

lemma dict_comp_scalar:
  "dict_comp (Scalar x) (enumerate 0 LABELS) [] =
     Inl (CHR 0x27 # ''float'' @ CHR 0x27 # '' object is not subscriptable'')"
  by (simp add: enumerate_LABELS subscript_def)

lemma squeeze_tolist_vector: "length xs \<noteq> 1 \<Longrightarrow> squeeze_tolist xs = Vector xs"
  by (cases xs; cases "tl xs") (auto simp: squeeze_tolist_def split: list.splits)

lemma squeeze_tolist_scalar: "length xs = 1 \<Longrightarrow> squeeze_tolist xs = Scalar (hd xs)"
  by (cases xs; cases "tl xs") (auto simp: squeeze_tolist_def split: list.splits)

text \<open>Away from NaN, \<open><\<close> is the negation of \<open>\<ge>\<close>; at NaN both are false.\<close>

lemma float_lt_iff: "a \<noteq> NaN \<Longrightarrow> b \<noteq> NaN \<Longrightarrow> float_lt a b \<longleftrightarrow> \<not> float_ge a b"
  by (cases a; cases b) auto

lemma float_ge_NaN: "\<not> float_ge a NaN" "\<not> float_ge NaN b"
  by (cases a) simp_all

lemma float_lt_NaN: "\<not> float_lt a NaN" "\<not> float_lt NaN b"
  by (cases a) simp_all

lemma in_unit_interval_Finite: "in_unit_interval (Finite p) \<longleftrightarrow> 0 \<le> p \<and> p \<le> 1"
  by (simp add: in_unit_interval_def)

lemma not_in_unit_interval_NaN: "\<not> in_unit_interval NaN"
  by (simp add: in_unit_interval_def)

lemma sigmoid_like_exact: "sigmoid_like sigmoid_exact"
proof -
  have "\<And>v::real. 0 \<le> 1 / (1 + exp (- v)) \<and> 1 / (1 + exp (- v)) \<le> 1"
    by (simp add: add_pos_pos less_imp_le)
  then show ?thesis
    unfolding sigmoid_like_def sigmoid_exact_def
    by (auto split: pyfloat.splits)
qed

lemma sigmoid_exact_zero: "sigmoid_exact (Finite 0) = Finite (1 / 2)"
  by (simp add: sigmoid_exact_def)

lemma sigmoid_exact_ge_half:
  "float_ge (sigmoid_exact (Finite x)) (Finite (1 / 2)) \<longleftrightarrow> 0 \<le> x"
proof -
  have pos: "0 < 1 + exp (- x)" by (simp add: add_pos_pos)
  have "1 / 2 \<le> 1 / (1 + exp (- x)) \<longleftrightarrow> 1 + exp (- x) \<le> 2"
    using pos by (simp add: field_simps)
  also have "\<dots> \<longleftrightarrow> exp (- x) \<le> 1" by auto
  also have "\<dots> \<longleftrightarrow> 0 \<le> x" by simp
  finally show ?thesis by (simp add: sigmoid_exact_def)
qed

text \<open>
  The three ways \<^verbatim>\<open>classify_comment\<close> ends: the model raises, the model gives fewer
  than six logits (one logit is squeezed to a bare float), or six probabilities are there.
\<close>

lemma classify_comment_unfold:
  "classify_comment sg m c t =
     (case m c of
        Inl e \<Rightarrow> Inl (HTTPException 500 (''Classification error: '' @ e))
      | Inr logits \<Rightarrow>
          if length logits = 1 then
            Inl (HTTPException 500 (''Classification error: '' @
                   CHR 0x27 # ''float'' @ CHR 0x27 # '' object is not subscriptable''))
          else if length logits < 6 then
            Inl (HTTPException 500 (''Classification error: list index out of range''))
          else
            Inr \<lparr>labels =
                   (if select_labels t (predictions_of (map sg logits)) = [] then [''none'']
                    else select_labels t (predictions_of (map sg logits))),
                 probabilities = predictions_of (map sg logits)\<rparr>)"
proof (cases "m c")
  case (Inl e)
  then show ?thesis by (simp add: classify_comment_def)
next
  case (Inr logits)
  consider "length logits = 1" | "length logits \<noteq> 1" "length logits < 6" | "6 \<le> length logits"
    by linarith
  then show ?thesis
  proof cases
    case 1
    then show ?thesis using Inr
      by (simp add: classify_comment_def squeeze_tolist_scalar dict_comp_scalar)
  next
    case 2
    then show ?thesis using Inr
      by (simp add: classify_comment_def squeeze_tolist_vector dict_comp_short)
  next
    case 3
    then show ?thesis using Inr
      by (simp add: classify_comment_def squeeze_tolist_vector dict_comp_vector select_labels_def)
  qed
qed

lemma classify_comment_InrD:
  assumes "classify_comment sg m c t = Inr r"
  shows "\<exists>logits. m c = Inr logits \<and> 6 \<le> length logits
           \<and> probabilities r = predictions_of (map sg logits)
           \<and> labels r = (if select_labels t (probabilities r) = [] then [''none'']
                          else select_labels t (probabilities r))"
  using assms unfolding classify_comment_unfold
  by (auto split: sum.splits if_splits)

lemma classify_comment_returns:
  assumes "m c = Inr logits" and "6 \<le> length logits"
  shows "\<exists>r. classify_comment sg m c t = Inr r"
  using assms unfolding classify_comment_unfold by auto

lemma select_labels_keys:
  "distinct (map fst ps) \<Longrightarrow>
   select_labels t ps = filter (\<lambda>l. \<exists>p. map_of ps l = Some p \<and> float_ge p t) (map fst ps)"
proof (induction ps)
  case Nil
  then show ?case by (simp add: select_labels_def)
next
  case (Cons a ps)
  obtain k v where a: "a = (k, v)" by (cases a)
  from Cons.prems a have k: "k \<notin> fst ` set ps" and d: "distinct (map fst ps)" by auto
  have "filter (\<lambda>l. \<exists>p. map_of (a # ps) l = Some p \<and> float_ge p t) (map fst ps)
      = filter (\<lambda>l. \<exists>p. map_of ps l = Some p \<and> float_ge p t) (map fst ps)"
    using k a by (intro filter_cong) auto
  with Cons.IH [OF d] a show ?case
    by (simp add: select_labels_def)
qed

lemma keys_predictions_of: "map fst (predictions_of xs) = LABELS"
  by (simp add: predictions_of_def LABELS_def)

lemma map_of_predictions_of:
  "l \<in> set LABELS \<Longrightarrow> \<exists>p. map_of (predictions_of xs) l = Some p"
  by (auto simp: predictions_of_def LABELS_def)

lemma predictions_of_nth:
  "i < 6 \<Longrightarrow> snd (predictions_of xs ! i) = xs ! i"
proof -
  assume "i < 6"
  then have "i \<in> {0, 1, 2, 3, 4, 5}" by auto
  then show ?thesis by (auto simp: predictions_of_def)
qed

lemma predictions_of_values:
  "(l, p) \<in> set (predictions_of xs) \<Longrightarrow> \<exists>i < 6. p = xs ! i"
proof -
  assume "(l, p) \<in> set (predictions_of xs)"
  then have "p \<in> (\<lambda>i. xs ! i) ` {0, 1, 2, 3, 4, 5}"
    by (auto simp: predictions_of_def)
  then obtain i where "i \<in> {0, 1, 2, 3, 4, 5::nat}" and "p = xs ! i" by blast
  then have "i < 6 \<and> p = xs ! i" by auto
  then show ?thesis by blast
qed

lemma sigmoid_like_value: "sigmoid_like sg \<Longrightarrow> sg x = NaN \<or> in_unit_interval (sg x)"
  unfolding sigmoid_like_def
  by (cases "x = NaN") (auto simp: in_unit_interval_Finite)

text \<open>
  Claim C1, as the code has it. Whenever \<^verbatim>\<open>classify_comment\<close> returns, for every comment
  and threshold: the labels are the single \<open>none\<close> exactly when no label probability is at
  or above the threshold; when neither the threshold nor a probability is NaN, that is
  exactly when each of the six probabilities is strictly below the threshold. Otherwise the
  labels are exactly the label names whose probability is at or above the threshold, in the
  order of \<open>LABELS\<close>; so \<open>none\<close> never stands beside a real label.
\<close>

theorem classify_labels:
  assumes "classify_comment sg m c t = Inr r"
  shows "(labels r = [''none''] \<longleftrightarrow>
            (\<forall>l \<in> set LABELS. \<exists>p. map_of (probabilities r) l = Some p \<and> \<not> float_ge p t))
       \<and> (t \<noteq> NaN \<and> NaN \<notin> snd ` set (probabilities r) \<longrightarrow>
            (labels r = [''none''] \<longleftrightarrow>
               (\<forall>l \<in> set LABELS. \<exists>p. map_of (probabilities r) l = Some p \<and> float_lt p t)))
       \<and> (labels r \<noteq> [''none''] \<longrightarrow>
            labels r = filter (\<lambda>l. \<exists>p. map_of (probabilities r) l = Some p \<and> float_ge p t) LABELS)
       \<and> (''none'' \<in> set (labels r) \<longrightarrow> labels r = [''none''])"
proof -
  from classify_comment_InrD [OF assms] obtain logits where
    ps: "probabilities r = predictions_of (map sg logits)" and
    ls: "labels r = (if select_labels t (probabilities r) = [] then [''none'']
                     else select_labels t (probabilities r))"
    by blast
  let ?sel = "filter (\<lambda>l. \<exists>p. map_of (probabilities r) l = Some p \<and> float_ge p t) LABELS"
  have keys: "map fst (probabilities r) = LABELS"
    by (simp add: ps keys_predictions_of)
  have sel: "select_labels t (probabilities r) = ?sel"
    using select_labels_keys [of "probabilities r" t] keys distinct_LABELS by simp
  have sub: "set ?sel \<subseteq> set LABELS" by auto
  have no_none: "''none'' \<notin> set ?sel"
    using sub none_not_label by blast
  have total: "\<And>l. l \<in> set LABELS \<Longrightarrow> \<exists>p. map_of (probabilities r) l = Some p"
    by (simp add: ps map_of_predictions_of)
  have empty_iff: "?sel = [] \<longleftrightarrow>
      (\<forall>l \<in> set LABELS. \<exists>p. map_of (probabilities r) l = Some p \<and> \<not> float_ge p t)"
  proof
    assume e: "?sel = []"
    show "\<forall>l \<in> set LABELS. \<exists>p. map_of (probabilities r) l = Some p \<and> \<not> float_ge p t"
    proof
      fix l assume l: "l \<in> set LABELS"
      from total [OF l] obtain p where p: "map_of (probabilities r) l = Some p" by blast
      from e l have "\<not> (\<exists>q. map_of (probabilities r) l = Some q \<and> float_ge q t)"
        by (simp add: filter_empty_conv)
      with p have "\<not> float_ge p t" by auto
      with p show "\<exists>p. map_of (probabilities r) l = Some p \<and> \<not> float_ge p t" by blast
    qed
  next
    assume a: "\<forall>l \<in> set LABELS. \<exists>p. map_of (probabilities r) l = Some p \<and> \<not> float_ge p t"
    show "?sel = []"
      unfolding filter_empty_conv using a by fastforce
  qed
  have none_iff: "labels r = [''none''] \<longleftrightarrow> ?sel = []"
  proof
    assume n: "labels r = [''none'']"
    show "?sel = []"
    proof (rule ccontr)
      assume "?sel \<noteq> []"
      with ls sel have "labels r = ?sel" by simp
      with n have "''none'' \<in> set ?sel" by simp
      with no_none show False by blast
    qed
  next
    assume "?sel = []"
    with ls sel show "labels r = [''none'']" by simp
  qed
  have c1: "labels r = [''none''] \<longleftrightarrow>
            (\<forall>l \<in> set LABELS. \<exists>p. map_of (probabilities r) l = Some p \<and> \<not> float_ge p t)"
    using none_iff empty_iff by simp
  have c2: "t \<noteq> NaN \<and> NaN \<notin> snd ` set (probabilities r) \<longrightarrow>
            (labels r = [''none''] \<longleftrightarrow>
               (\<forall>l \<in> set LABELS. \<exists>p. map_of (probabilities r) l = Some p \<and> float_lt p t))"
  proof
    assume h: "t \<noteq> NaN \<and> NaN \<notin> snd ` set (probabilities r)"
    have lt: "\<And>l p. map_of (probabilities r) l = Some p \<Longrightarrow> float_lt p t \<longleftrightarrow> \<not> float_ge p t"
    proof -
      fix l p assume "map_of (probabilities r) l = Some p"
      then have "(l, p) \<in> set (probabilities r)" by (rule map_of_SomeD)
      then have "p \<in> snd ` set (probabilities r)" by force
      with h have "p \<noteq> NaN" by blast
      with h show "float_lt p t \<longleftrightarrow> \<not> float_ge p t" by (simp add: float_lt_iff)
    qed
    have "(\<forall>l \<in> set LABELS. \<exists>p. map_of (probabilities r) l = Some p \<and> float_lt p t)
        \<longleftrightarrow> (\<forall>l \<in> set LABELS. \<exists>p. map_of (probabilities r) l = Some p \<and> \<not> float_ge p t)"
      using lt by (metis option.inject)
    with c1 show "labels r = [''none''] \<longleftrightarrow>
               (\<forall>l \<in> set LABELS. \<exists>p. map_of (probabilities r) l = Some p \<and> float_lt p t)"
      by simp
  qed
  have c3: "labels r \<noteq> [''none''] \<longrightarrow> labels r = ?sel"
    using none_iff ls sel by auto
  have c4: "''none'' \<in> set (labels r) \<longrightarrow> labels r = [''none'']"
    using c3 no_none by auto
  from c1 c2 c3 c4 show ?thesis by blast
qed

text \<open>
  The theorem at two inputs: logits all zero with threshold 0.9 (every probability is
  0.5, the labels are \<open>none\<close>), and logits with two non-negative entries at the default
  threshold (the labels are the two names).
\<close>

theorem classify_labels_witness:
  "classify_comment sigmoid_exact
      (\<lambda>_. Inr [Finite 0, Finite 0, Finite 0, Finite 0, Finite 0, Finite 0])
      ''You are wonderful'' (Finite (9 / 10))
     = Inr \<lparr>labels = [''none''],
            probabilities = [(''toxic'', Finite (1 / 2)), (''severe_toxic'', Finite (1 / 2)),
              (''obscene'', Finite (1 / 2)), (''threat'', Finite (1 / 2)),
              (''insult'', Finite (1 / 2)), (''identity_hate'', Finite (1 / 2))]\<rparr>
   \<and> list_all (\<lambda>l. \<exists>p.
         map_of [(''toxic'', Finite (1 / 2)), (''severe_toxic'', Finite (1 / 2)),
              (''obscene'', Finite (1 / 2)), (''threat'', Finite (1 / 2)),
              (''insult'', Finite (1 / 2)), (''identity_hate'', Finite (1 / 2))] l = Some p
         \<and> float_lt p (Finite (9 / 10))) LABELS
   \<and> classify_comment sigmoid_exact
      (\<lambda>_. Inr [Finite 2, Finite (- 3), Finite (- 1), Finite 1, Finite (- 1), Finite (- 4)])
      ''I will kill you'' (Finite (1 / 2))
     = Inr \<lparr>labels = [''toxic'', ''threat''],
            probabilities = [(''toxic'', sigmoid_exact (Finite 2)),
              (''severe_toxic'', sigmoid_exact (Finite (- 3))),
              (''obscene'', sigmoid_exact (Finite (- 1))),
              (''threat'', sigmoid_exact (Finite 1)),
              (''insult'', sigmoid_exact (Finite (- 1))),
              (''identity_hate'', sigmoid_exact (Finite (- 4)))]\<rparr>
   \<and> [''toxic'', ''threat''] =
       filter (\<lambda>l. \<exists>p. map_of [(''toxic'', sigmoid_exact (Finite 2)),
              (''severe_toxic'', sigmoid_exact (Finite (- 3))),
              (''obscene'', sigmoid_exact (Finite (- 1))),
              (''threat'', sigmoid_exact (Finite 1)),
              (''insult'', sigmoid_exact (Finite (- 1))),
              (''identity_hate'', sigmoid_exact (Finite (- 4)))] l = Some p
            \<and> float_ge p (Finite (1 / 2))) LABELS"
proof -
  have e: "classify_comment sigmoid_exact
      (\<lambda>_. Inr [Finite 0, Finite 0, Finite 0, Finite 0, Finite 0, Finite 0])
      ''You are wonderful'' (Finite (9 / 10))
     = Inr \<lparr>labels = [''none''],
            probabilities = [(''toxic'', Finite (1 / 2)), (''severe_toxic'', Finite (1 / 2)),
              (''obscene'', Finite (1 / 2)), (''threat'', Finite (1 / 2)),
              (''insult'', Finite (1 / 2)), (''identity_hate'', Finite (1 / 2))]\<rparr>"
    by (simp add: classify_comment_unfold predictions_of_def select_labels_def sigmoid_exact_zero)
  have k: "classify_comment sigmoid_exact
      (\<lambda>_. Inr [Finite 2, Finite (- 3), Finite (- 1), Finite 1, Finite (- 1), Finite (- 4)])
      ''I will kill you'' (Finite (1 / 2))
     = Inr \<lparr>labels = [''toxic'', ''threat''],
            probabilities = [(''toxic'', sigmoid_exact (Finite 2)),
              (''severe_toxic'', sigmoid_exact (Finite (- 3))),
              (''obscene'', sigmoid_exact (Finite (- 1))),
              (''threat'', sigmoid_exact (Finite 1)),
              (''insult'', sigmoid_exact (Finite (- 1))),
              (''identity_hate'', sigmoid_exact (Finite (- 4)))]\<rparr>"
    by (simp add: classify_comment_unfold predictions_of_def select_labels_def
        sigmoid_exact_ge_half)
  have n: "Finite (9 / 10) \<noteq> NaN \<and> NaN \<notin> snd ` set [(''toxic'', Finite (1 / 2)),
              (''severe_toxic'', Finite (1 / 2)),
              (''obscene'', Finite (1 / 2)), (''threat'', Finite (1 / 2)),
              (''insult'', Finite (1 / 2)), (''identity_hate'', Finite (1 / 2))]"
    by simp
  from classify_labels [OF e] n
  have a: "\<forall>l \<in> set LABELS. \<exists>p.
         map_of [(''toxic'', Finite (1 / 2)), (''severe_toxic'', Finite (1 / 2)),
              (''obscene'', Finite (1 / 2)), (''threat'', Finite (1 / 2)),
              (''insult'', Finite (1 / 2)), (''identity_hate'', Finite (1 / 2))] l = Some p
         \<and> float_lt p (Finite (9 / 10))"
    by simp
  from classify_labels [OF k]
  have b: "[''toxic'', ''threat''] =
       filter (\<lambda>l. \<exists>p. map_of [(''toxic'', sigmoid_exact (Finite 2)),
              (''severe_toxic'', sigmoid_exact (Finite (- 3))),
              (''obscene'', sigmoid_exact (Finite (- 1))),
              (''threat'', sigmoid_exact (Finite 1)),
              (''insult'', sigmoid_exact (Finite (- 1))),
              (''identity_hate'', sigmoid_exact (Finite (- 4)))] l = Some p
            \<and> float_ge p (Finite (1 / 2))) LABELS"
    by simp
  from e k a b show ?thesis by (simp only: list_all_iff)
qed

text \<open>
  Where the claim as stated fails: with the threshold NaN every comparison is false, so the
  labels are \<open>none\<close> although no probability is below the threshold.
\<close>

theorem classify_labels_nan_threshold:
  "classify_comment sigmoid_exact
      (\<lambda>_. Inr [Finite 0, Finite 0, Finite 0, Finite 0, Finite 0, Finite 0])
      ''hello'' NaN
     = Inr \<lparr>labels = [''none''],
            probabilities = [(''toxic'', Finite (1 / 2)), (''severe_toxic'', Finite (1 / 2)),
              (''obscene'', Finite (1 / 2)), (''threat'', Finite (1 / 2)),
              (''insult'', Finite (1 / 2)), (''identity_hate'', Finite (1 / 2))]\<rparr>
   \<and> \<not> float_lt (Finite (1 / 2)) NaN"
  by (simp add: classify_comment_unfold predictions_of_def select_labels_def sigmoid_exact_zero)

text \<open>
  Claim C2, as the code has it. Whenever \<^verbatim>\<open>classify_comment\<close> returns, for every comment
  and threshold, the probabilities have exactly the six keys of \<open>LABELS\<close>, in that order,
  whichever labels were selected. Each value is the sigmoid of the model's logit for the
  label: it lies between 0 and 1 when the logit is not NaN, and it is NaN when the logit is.
\<close>

theorem classify_probabilities:
  assumes "classify_comment sg m c t = Inr r"
  shows "map fst (probabilities r) = LABELS \<and> length (probabilities r) = 6
       \<and> (sigmoid_like sg \<longrightarrow>
            (\<exists>logits. m c = Inr logits \<and> 6 \<le> length logits
               \<and> (\<forall>i < 6. snd (probabilities r ! i) = sg (logits ! i)
                     \<and> (logits ! i \<noteq> NaN \<longrightarrow> in_unit_interval (snd (probabilities r ! i)))
                     \<and> (logits ! i = NaN \<longrightarrow> snd (probabilities r ! i) = NaN)))
            \<and> (\<forall>(l, p) \<in> set (probabilities r). p = NaN \<or> in_unit_interval p))"
proof -
  from classify_comment_InrD [OF assms] obtain logits where
    mc: "m c = Inr logits" and
    n: "6 \<le> length logits" and
    ps: "probabilities r = predictions_of (map sg logits)"
    by blast
  have a: "map fst (probabilities r) = LABELS" by (simp add: ps keys_predictions_of)
  have b: "length (probabilities r) = 6" by (simp add: ps predictions_of_def)
  have c: "sigmoid_like sg \<longrightarrow>
            (\<exists>logits. m c = Inr logits \<and> 6 \<le> length logits
               \<and> (\<forall>i < 6. snd (probabilities r ! i) = sg (logits ! i)
                     \<and> (logits ! i \<noteq> NaN \<longrightarrow> in_unit_interval (snd (probabilities r ! i)))
                     \<and> (logits ! i = NaN \<longrightarrow> snd (probabilities r ! i) = NaN)))
            \<and> (\<forall>(l, p) \<in> set (probabilities r). p = NaN \<or> in_unit_interval p)"
  proof
    assume sl: "sigmoid_like sg"
    have nth: "\<And>i. i < 6 \<Longrightarrow> snd (probabilities r ! i) = sg (logits ! i)"
      using n by (simp add: ps predictions_of_nth)
    have each: "\<forall>i < 6. snd (probabilities r ! i) = sg (logits ! i)
                     \<and> (logits ! i \<noteq> NaN \<longrightarrow> in_unit_interval (snd (probabilities r ! i)))
                     \<and> (logits ! i = NaN \<longrightarrow> snd (probabilities r ! i) = NaN)"
    proof (intro allI impI)
      fix i :: nat assume i: "i < 6"
      from sl have nan: "sg NaN = NaN" by (simp add: sigmoid_like_def)
      from sl have fin: "logits ! i \<noteq> NaN \<longrightarrow> in_unit_interval (sg (logits ! i))"
        unfolding sigmoid_like_def by (auto simp: in_unit_interval_Finite)
      from nth [OF i] nan fin
      show "snd (probabilities r ! i) = sg (logits ! i)
                     \<and> (logits ! i \<noteq> NaN \<longrightarrow> in_unit_interval (snd (probabilities r ! i)))
                     \<and> (logits ! i = NaN \<longrightarrow> snd (probabilities r ! i) = NaN)"
        by simp
    qed
    have vals: "\<forall>(l, p) \<in> set (probabilities r). p = NaN \<or> in_unit_interval p"
    proof (clarify)
      fix l p assume "(l, p) \<in> set (probabilities r)" and "\<not> in_unit_interval p"
      then obtain i where "i < 6" and "p = map sg logits ! i"
        using predictions_of_values [of l p "map sg logits"] ps by auto
      with n have "p = sg (logits ! i)" by simp
      with sigmoid_like_value [OF sl, of "logits ! i"] \<open>\<not> in_unit_interval p\<close>
      show "p = NaN" by simp
    qed
    from mc n each vals
    show "(\<exists>logits. m c = Inr logits \<and> 6 \<le> length logits
               \<and> (\<forall>i < 6. snd (probabilities r ! i) = sg (logits ! i)
                     \<and> (logits ! i \<noteq> NaN \<longrightarrow> in_unit_interval (snd (probabilities r ! i)))
                     \<and> (logits ! i = NaN \<longrightarrow> snd (probabilities r ! i) = NaN)))
            \<and> (\<forall>(l, p) \<in> set (probabilities r). p = NaN \<or> in_unit_interval p)"
      by blast
  qed
  from a b c show ?thesis by blast
qed

text \<open>The theorem at seven logits, all but the last zero: six values of 0.5.\<close>

theorem classify_probabilities_witness:
  "classify_comment sigmoid_exact
      (\<lambda>_. Inr [Finite 0, Finite 0, Finite 0, Finite 0, Finite 0, Finite 0, Finite 7])
      ''hello'' (Finite (1 / 2))
     = Inr \<lparr>labels = LABELS,
            probabilities = [(''toxic'', Finite (1 / 2)), (''severe_toxic'', Finite (1 / 2)),
              (''obscene'', Finite (1 / 2)), (''threat'', Finite (1 / 2)),
              (''insult'', Finite (1 / 2)), (''identity_hate'', Finite (1 / 2))]\<rparr>
   \<and> map fst [(''toxic'', Finite (1 / 2)), (''severe_toxic'', Finite (1 / 2)),
              (''obscene'', Finite (1 / 2)), (''threat'', Finite (1 / 2)),
              (''insult'', Finite (1 / 2)), (''identity_hate'', Finite (1 / 2))] = LABELS
   \<and> list_all (\<lambda>(l, p). p = NaN \<or> in_unit_interval p)
        [(''toxic'', Finite (1 / 2)), (''severe_toxic'', Finite (1 / 2)),
              (''obscene'', Finite (1 / 2)), (''threat'', Finite (1 / 2)),
              (''insult'', Finite (1 / 2)), (''identity_hate'', Finite (1 / 2))]"
proof -
  have e: "classify_comment sigmoid_exact
      (\<lambda>_. Inr [Finite 0, Finite 0, Finite 0, Finite 0, Finite 0, Finite 0, Finite 7])
      ''hello'' (Finite (1 / 2))
     = Inr \<lparr>labels = LABELS,
            probabilities = [(''toxic'', Finite (1 / 2)), (''severe_toxic'', Finite (1 / 2)),
              (''obscene'', Finite (1 / 2)), (''threat'', Finite (1 / 2)),
              (''insult'', Finite (1 / 2)), (''identity_hate'', Finite (1 / 2))]\<rparr>"
    by (simp add: classify_comment_unfold predictions_of_def select_labels_def sigmoid_exact_zero
        LABELS_def)
  from classify_probabilities [OF e] sigmoid_like_exact
  have "map fst [(''toxic'', Finite (1 / 2)), (''severe_toxic'', Finite (1 / 2)),
              (''obscene'', Finite (1 / 2)), (''threat'', Finite (1 / 2)),
              (''insult'', Finite (1 / 2)), (''identity_hate'', Finite (1 / 2))] = LABELS
     \<and> (\<forall>(l, p) \<in> set [(''toxic'', Finite (1 / 2)), (''severe_toxic'', Finite (1 / 2)),
              (''obscene'', Finite (1 / 2)), (''threat'', Finite (1 / 2)),
              (''insult'', Finite (1 / 2)), (''identity_hate'', Finite (1 / 2))].
           p = NaN \<or> in_unit_interval p)"
    by simp
  with e show ?thesis by (simp only: list_all_iff) blast
qed

text \<open>
  Where the claim as stated fails: a NaN logit for the first label comes back as a NaN
  probability, which is not between 0 and 1.
\<close>

theorem classify_probabilities_nan_logit:
  "classify_comment sigmoid_exact
      (\<lambda>_. Inr [NaN, Finite 0, Finite 0, Finite 0, Finite 0, Finite 0])
      ''hello'' (Finite (1 / 2))
     = Inr \<lparr>labels = [''severe_toxic'', ''obscene'', ''threat'', ''insult'', ''identity_hate''],
            probabilities = [(''toxic'', NaN), (''severe_toxic'', Finite (1 / 2)),
              (''obscene'', Finite (1 / 2)), (''threat'', Finite (1 / 2)),
              (''insult'', Finite (1 / 2)), (''identity_hate'', Finite (1 / 2))]\<rparr>
   \<and> \<not> (float_ge NaN (Finite 0) \<and> float_ge (Finite 1) NaN)"
  by (simp add: classify_comment_unfold predictions_of_def select_labels_def sigmoid_exact_zero
      sigmoid_exact_def)

section \<open>Failures of the model call\<close>

text \<open>
  Claim C7. If the model call raises with message \<open>e\<close>, \<^verbatim>\<open>classify_comment\<close> fails with
  status 500 and the detail \<open>Classification error:\<close> followed by \<open>e\<close>. In every case
  the outcome is either a complete result (non-empty labels drawn from the six names and
  \<open>none\<close>, and the six probabilities) or a failure of that form, never a part of a result.
\<close>

theorem classify_fails_or_complete:
  "(m c = Inl e \<longrightarrow>
      classify_comment sg m c t = Inl (HTTPException 500 (''Classification error: '' @ e)))
   \<and> ((\<exists>r. classify_comment sg m c t = Inr r
            \<and> map fst (probabilities r) = LABELS
            \<and> labels r \<noteq> []
            \<and> set (labels r) \<subseteq> set LABELS \<union> {''none''})
        \<or> (\<exists>cause. classify_comment sg m c t =
              Inl (HTTPException 500 (''Classification error: '' @ cause))))"
proof -
  have a: "m c = Inl e \<longrightarrow>
      classify_comment sg m c t = Inl (HTTPException 500 (''Classification error: '' @ e))"
    by (simp add: classify_comment_def)
  have b: "(\<exists>r. classify_comment sg m c t = Inr r
            \<and> map fst (probabilities r) = LABELS
            \<and> labels r \<noteq> []
            \<and> set (labels r) \<subseteq> set LABELS \<union> {''none''})
        \<or> (\<exists>cause. classify_comment sg m c t =
              Inl (HTTPException 500 (''Classification error: '' @ cause)))"
  proof (cases "classify_comment sg m c t")
    case (Inl x)
    then have "\<exists>cause. classify_comment sg m c t =
        Inl (HTTPException 500 (''Classification error: '' @ cause))"
      unfolding classify_comment_unfold
      by (auto split: sum.splits if_splits)
    then show ?thesis by blast
  next
    case (Inr r)
    from classify_comment_InrD [OF Inr] obtain logits where
      ps: "probabilities r = predictions_of (map sg logits)" and
      ls: "labels r = (if select_labels t (probabilities r) = [] then [''none'']
                     else select_labels t (probabilities r))"
      by blast
    have keys: "map fst (probabilities r) = LABELS"
      by (simp add: ps keys_predictions_of)
    have "set (select_labels t (probabilities r)) \<subseteq> set (map fst (probabilities r))"
      by (auto simp: select_labels_def)
    with keys have sub: "set (select_labels t (probabilities r)) \<subseteq> set LABELS" by simp
    from ls have ne: "labels r \<noteq> []" by (simp split: if_splits)
    from ls sub have "set (labels r) \<subseteq> set LABELS \<union> {''none''}"
      by (auto split: if_splits)
    with Inr keys ne show ?thesis by blast
  qed
  from a b show ?thesis by blast
qed

theorem classify_fails_or_complete_witness:
  "classify_comment sigmoid_exact (\<lambda>_. Inl ''CUDA out of memory'') ''hello'' (Finite (1 / 2))
     = Inl (HTTPException 500 ''Classification error: CUDA out of memory'')"
  using classify_fails_or_complete
    [of "\<lambda>_. Inl ''CUDA out of memory''" "''hello''" "''CUDA out of memory''" sigmoid_exact
        "Finite (1 / 2)"]
  by simp

section \<open>The feedback store\<close>

lemma invalid_labels_of_Nil:
  "invalid_labels_of fb = [] \<longleftrightarrow> set (expected_labels fb) \<subseteq> set LABELS \<union> {''none''}"
  by (auto simp: invalid_labels_of_def filter_empty_conv)

lemma submit_feedback_invalid:
  "invalid_labels_of fb \<noteq> [] \<Longrightarrow>
   submit_feedback now fault db fb =
     (Inl (HTTPException 400 (''Invalid labels: '' @ join '', '' (invalid_labels_of fb))), db)"
  by (simp add: submit_feedback_def invalid_labels_of_def)

lemma submit_feedback_fault:
  "invalid_labels_of fb = [] \<Longrightarrow>
   submit_feedback now (Some e) db fb = (Inl (HTTPException 500 (''Database error: '' @ e)), db)"
  by (simp add: submit_feedback_def invalid_labels_of_def)

lemma submit_feedback_stored:
  "invalid_labels_of fb = [] \<Longrightarrow> last_rowid db < 2 ^ 63 - 1 \<Longrightarrow>
   submit_feedback now None db fb =
     (Inr ''Feedback stored successfully'',
      \<lparr>feedback = feedback db @ [stored_row now db fb],
       sqlite_sequence = row_id (stored_row now db fb)\<rparr>)"
  by (simp add: submit_feedback_def invalid_labels_of_def sql_insert_def LABELS_def
      stored_row_def Let_def last_rowid_def [symmetric])

lemma submit_feedback_full:
  "invalid_labels_of fb = [] \<Longrightarrow> 2 ^ 63 - 1 \<le> last_rowid db \<Longrightarrow>
   submit_feedback now None db fb =
     (Inl (HTTPException 500 ''Database error: database or disk is full''), db)"
  by (simp add: submit_feedback_def invalid_labels_of_def sql_insert_def LABELS_def
      Let_def last_rowid_def [symmetric])

lemma fold_max_rowid:
  "a \<le> fold (\<lambda>r m. max (row_id r) m) rs a
   \<and> (\<forall>r \<in> set rs. row_id r \<le> fold (\<lambda>r m. max (row_id r) m) rs a)"
proof (induction rs arbitrary: a)
  case Nil
  then show ?case by simp
next
  case (Cons x rs)
  from Cons.IH [of "max (row_id x) a"] show ?case by auto
qed

lemma max_rowid_ge: "r \<in> set rs \<Longrightarrow> row_id r \<le> max_rowid rs"
  using fold_max_rowid [of 0 rs] by (simp add: max_rowid_def)

lemma stored_row_fresh: "r \<in> set (feedback db) \<Longrightarrow> row_id r < row_id (stored_row now db fb)"
  using max_rowid_ge [of r "feedback db"] by (simp add: stored_row_def)

lemma row_id_stored_row: "row_id (stored_row now db fb) = last_rowid db + 1"
  by (simp add: stored_row_def last_rowid_def)

lemma join_names:
  "l \<in> set xs \<Longrightarrow> \<exists>pre post. join sep xs = pre @ l @ post"
proof (induction sep xs rule: join.induct)
  case (1 sep)
  then show ?case by simp
next
  case (2 sep x)
  then have "join sep [x] = [] @ l @ []" by simp
  then show ?case by blast
next
  case (3 sep x y ys)
  show ?case
  proof (cases "l = x")
    case True
    then have "join sep (x # y # ys) = [] @ l @ (sep @ join sep (y # ys))" by simp
    then show ?thesis by blast
  next
    case False
    with "3.prems" have "l \<in> set (y # ys)" by simp
    from "3.IH" [OF this] obtain pre post where "join sep (y # ys) = pre @ l @ post" by blast
    then have "join sep (x # y # ys) = (x @ sep @ pre) @ l @ post" by simp
    then show ?thesis by blast
  qed
qed

text \<open>The table starts in rowid order, and every submission keeps it so.\<close>

lemma table_ok_init: "table_ok (init_db None)"
  by (simp add: table_ok_def init_db_def)

lemma table_ok_submit:
  assumes "table_ok db"
  shows "table_ok (snd (submit_feedback now fault db fb))"
proof (cases "invalid_labels_of fb = []")
  case False
  then show ?thesis using assms by (simp add: submit_feedback_invalid)
next
  case True
  show ?thesis
  proof (cases fault)
    case (Some e)
    then show ?thesis using assms True by (simp add: submit_feedback_fault)
  next
    case None
    show ?thesis
    proof (cases "last_rowid db < 2 ^ 63 - 1")
      case room: True
      then show ?thesis using None assms True stored_row_fresh [of _ db now fb]
        by (auto simp: submit_feedback_stored table_ok_def sorted_wrt_append)
    next
      case False
      then have "2 ^ 63 - 1 \<le> last_rowid db" by simp
      then show ?thesis using None assms True by (simp add: submit_feedback_full)
    qed
  qed
qed

lemma view_feedback_fault:
  "view_feedback (Some e) db limit offset =
     (Inl (HTTPException 500 (''Failed to retrieve feedback: '' @ e)), db)"
  by (simp add: view_feedback_def)

lemma view_feedback_overflow:
  "\<not> (- (2 ^ 63) \<le> limit \<and> limit < 2 ^ 63 \<and> - (2 ^ 63) \<le> offset \<and> offset < 2 ^ 63) \<Longrightarrow>
   view_feedback None db limit offset =
     (Inl (HTTPException 500
        ''Failed to retrieve feedback: Python int too large to convert to SQLite INTEGER''), db)"
  by (auto simp: view_feedback_def sql_select_def bind_int_def)

lemma view_feedback_rows:
  "- (2 ^ 63) \<le> limit \<Longrightarrow> limit < 2 ^ 63 \<Longrightarrow> - (2 ^ 63) \<le> offset \<Longrightarrow> offset < 2 ^ 63 \<Longrightarrow>
   view_feedback None db limit offset =
     (Inr (if limit < 0 then drop (nat offset) (feedback db)
           else take (nat limit) (drop (nat offset) (feedback db))), db)"
  by (simp add: view_feedback_def sql_select_def bind_int_def Let_def)

lemma view_feedback_InrD:
  assumes "view_feedback fault db limit offset = (Inr rs, d)"
  shows "fault = None \<and> d = db
       \<and> - (2 ^ 63) \<le> limit \<and> limit < 2 ^ 63 \<and> - (2 ^ 63) \<le> offset \<and> offset < 2 ^ 63
       \<and> rs = (if limit < 0 then drop (nat offset) (feedback db)
               else take (nat limit) (drop (nat offset) (feedback db)))"
proof (cases fault)
  case (Some e)
  with assms show ?thesis by (simp add: view_feedback_fault)
next
  case None
  show ?thesis
  proof (cases "- (2 ^ 63) \<le> limit \<and> limit < 2 ^ 63 \<and> - (2 ^ 63) \<le> offset \<and> offset < 2 ^ 63")
    case False
    from view_feedback_overflow [OF this] assms None show ?thesis by simp
  next
    case True
    then have "view_feedback None db limit offset =
     (Inr (if limit < 0 then drop (nat offset) (feedback db)
           else take (nat limit) (drop (nat offset) (feedback db))), db)"
      by (intro view_feedback_rows) auto
    with assms None True show ?thesis by auto
  qed
qed

lemma submit_feedback_InrD:
  assumes "submit_feedback now fault db fb = (Inr msg, db')"
  shows "invalid_labels_of fb = [] \<and> fault = None \<and> msg = ''Feedback stored successfully''
       \<and> last_rowid db < 2 ^ 63 - 1
       \<and> db' = \<lparr>feedback = feedback db @ [stored_row now db fb],
                sqlite_sequence = row_id (stored_row now db fb)\<rparr>"
proof (cases "invalid_labels_of fb = []")
  case False
  with assms show ?thesis by (simp add: submit_feedback_invalid)
next
  case True
  show ?thesis
  proof (cases fault)
    case (Some e)
    with assms True show ?thesis by (simp add: submit_feedback_fault)
  next
    case None
    show ?thesis
    proof (cases "last_rowid db < 2 ^ 63 - 1")
      case room: True
      with assms True None show ?thesis by (auto simp: submit_feedback_stored)
    next
      case False
      then have "2 ^ 63 - 1 \<le> last_rowid db" by simp
      with assms True None show ?thesis by (simp add: submit_feedback_full)
    qed
  qed
qed

lemma get_feedback_stats_db: "snd (get_feedback_stats f db) = db"
  by (simp add: get_feedback_stats_def split: option.splits)

lemma get_feedback_stats_InrD:
  "get_feedback_stats f db = (Inr n, d) \<Longrightarrow> f = None \<and> d = db \<and> n = int (length (feedback db))"
  by (auto simp: get_feedback_stats_def sql_count_def split: option.splits)


text \<open>
  Claim C3. A feedback submission whose expected labels contain an element \<open>l\<close> that is
  neither one of the six label names nor \<open>none\<close> fails with status 400; the detail is
  \<open>Invalid labels:\<close> followed by the rejected values joined by commas, so it names
  \<open>l\<close>; the table is as before, and a count after the failed call equals the count
  before it. This holds whatever the database file does.
\<close>

theorem submit_invalid_rejected:
  assumes "l \<in> set (expected_labels fb)" and "l \<notin> set LABELS" and "l \<noteq> ''none''"
  shows "\<exists>names.
           submit_feedback now fault db fb = (Inl (HTTPException 400 (''Invalid labels: '' @ names)), db)
         \<and> names = join '', '' (filter (\<lambda>label. label \<notin> set LABELS \<and> label \<noteq> ''none'')
                                   (expected_labels fb))
         \<and> (\<exists>pre post. names = pre @ l @ post)
         \<and> feedback (snd (submit_feedback now fault db fb)) = feedback db
         \<and> get_feedback_stats f (snd (submit_feedback now fault db fb)) = get_feedback_stats f db"
proof -
  from assms have m: "l \<in> set (invalid_labels_of fb)"
    by (simp add: invalid_labels_of_def)
  then have ne: "invalid_labels_of fb \<noteq> []" by auto
  let ?names = "join '', '' (invalid_labels_of fb)"
  have s: "submit_feedback now fault db fb =
      (Inl (HTTPException 400 (''Invalid labels: '' @ ?names)), db)"
    by (rule submit_feedback_invalid [OF ne])
  have n: "\<exists>pre post. ?names = pre @ l @ post"
    by (rule join_names [OF m])
  have d: "feedback (snd (submit_feedback now fault db fb)) = feedback db"
    and c: "get_feedback_stats f (snd (submit_feedback now fault db fb)) = get_feedback_stats f db"
    by (simp_all only: s snd_conv)
  have e: "?names = join '', '' (filter (\<lambda>label. label \<notin> set LABELS \<and> label \<noteq> ''none'')
                                   (expected_labels fb))"
    by (simp only: invalid_labels_of_def)
  from s n d c e show ?thesis by blast
qed

theorem submit_invalid_rejected_witness:
  "submit_feedback ''2024-05-01 10:00:00'' None
      \<lparr>feedback = [], sqlite_sequence = 0\<rparr>
      \<lparr>comment = ''hi'', expected_labels = [''toxic'', ''bogus'', ''none'', ''wrong'']\<rparr>
     = (Inl (HTTPException 400 ''Invalid labels: bogus, wrong''),
        \<lparr>feedback = [], sqlite_sequence = 0\<rparr>)
   \<and> get_feedback_stats None (snd (submit_feedback ''2024-05-01 10:00:00'' None
      \<lparr>feedback = [], sqlite_sequence = 0\<rparr>
      \<lparr>comment = ''hi'', expected_labels = [''toxic'', ''bogus'', ''none'', ''wrong'']\<rparr>))
     = (Inr 0, \<lparr>feedback = [], sqlite_sequence = 0\<rparr>)"
proof -
  have a: "''bogus'' \<in> set (expected_labels
      \<lparr>comment = ''hi'', expected_labels = [''toxic'', ''bogus'', ''none'', ''wrong'']\<rparr>)"
    by simp
  have b: "''bogus'' \<notin> set LABELS" by (simp add: LABELS_def)
  have c: "''bogus'' \<noteq> ''none''" by simp
  from submit_invalid_rejected [OF a b c, of "''2024-05-01 10:00:00''" None
      "\<lparr>feedback = [], sqlite_sequence = 0\<rparr>" None]
  show ?thesis
    by (simp add: LABELS_def get_feedback_stats_def sql_count_def)
qed




text \<open>
  Claim C6. For every store state: after a count that returned \<open>n\<close>, a submission that
  succeeds is followed by a count of \<open>n + 1\<close>; the count after it returns when the
  database file works, and every count that returns then gives \<open>n + 1\<close>.
\<close>

theorem submit_then_count:
  assumes "get_feedback_stats f1 db = (Inr n, d1)"
      and "submit_feedback now fault d1 fb = (Inr msg, d2)"
  shows "get_feedback_stats None d2 = (Inr (n + 1), d2)
       \<and> (\<forall>f2 n' d3. get_feedback_stats f2 d2 = (Inr n', d3) \<longrightarrow> n' = n + 1)"
proof -
  from get_feedback_stats_InrD [OF assms(1)] have d1: "d1 = db" and n: "n = int (length (feedback db))"
    by simp_all
  from submit_feedback_InrD [OF assms(2)] d1
  have f: "feedback d2 = feedback db @ [stored_row now db fb]" by simp
  have a: "get_feedback_stats None d2 = (Inr (n + 1), d2)"
    by (simp add: get_feedback_stats_def sql_count_def f n)
  have b: "\<forall>f2 n' d3. get_feedback_stats f2 d2 = (Inr n', d3) \<longrightarrow> n' = n + 1"
  proof (intro allI impI)
    fix f2 n' d3 assume "get_feedback_stats f2 d2 = (Inr n', d3)"
    from get_feedback_stats_InrD [OF this] show "n' = n + 1" by (simp add: f n)
  qed
  from a b show ?thesis by blast
qed

theorem submit_then_count_witness:
  "get_feedback_stats None \<lparr>feedback = [], sqlite_sequence = 0\<rparr>
     = (Inr 0, \<lparr>feedback = [], sqlite_sequence = 0\<rparr>)
   \<and> get_feedback_stats None
       (snd (submit_feedback ''2024-05-01 10:00:00'' None \<lparr>feedback = [], sqlite_sequence = 0\<rparr>
              \<lparr>comment = ''fine'', expected_labels = [''none'']\<rparr>))
     = (Inr 1,
        snd (submit_feedback ''2024-05-01 10:00:00'' None \<lparr>feedback = [], sqlite_sequence = 0\<rparr>
              \<lparr>comment = ''fine'', expected_labels = [''none'']\<rparr>))"
proof -
  let ?db = "\<lparr>feedback = [], sqlite_sequence = 0\<rparr>"
  let ?fb = "\<lparr>comment = ''fine'', expected_labels = [''none'']\<rparr>"
  have c: "get_feedback_stats None ?db = (Inr 0, ?db)"
    by (simp add: get_feedback_stats_def sql_count_def)
  have v: "invalid_labels_of ?fb = []"
    by (simp add: invalid_labels_of_def)
  have s: "submit_feedback ''2024-05-01 10:00:00'' None ?db ?fb
      = (Inr ''Feedback stored successfully'',
         snd (submit_feedback ''2024-05-01 10:00:00'' None ?db ?fb))"
    by (simp add: submit_feedback_stored [OF v] last_rowid_def max_rowid_def)
  from submit_then_count [OF c s] c show ?thesis by simp
qed

section \<open>Frame conditions\<close>

lemma view_feedback_db: "snd (view_feedback f db limit offset) = db"
  by (simp add: view_feedback_def split: option.splits sum.splits)


lemma submit_feedback_appends:
  "\<exists>new. feedback (snd (submit_feedback now f db fb)) = feedback db @ new \<and> length new \<le> 1
      \<and> (new \<noteq> [] \<longrightarrow> fst (submit_feedback now f db fb) = Inr ''Feedback stored successfully'')"
proof (cases "fst (submit_feedback now f db fb)")
  case (Inl e)
  then have "submit_feedback now f db fb = (Inl e, snd (submit_feedback now f db fb))"
    by (metis prod.collapse)
  moreover have "snd (submit_feedback now f db fb) = db"
  proof (cases "invalid_labels_of fb = []")
    case False
    then show ?thesis by (simp add: submit_feedback_invalid)
  next
    case True
    show ?thesis
    proof (cases f)
      case (Some e')
      then show ?thesis using True by (simp add: submit_feedback_fault)
    next
      case None
      show ?thesis
      proof (cases "last_rowid db < 2 ^ 63 - 1")
        case room: True
        with True None Inl show ?thesis by (simp add: submit_feedback_stored)
      next
        case False
        then have "2 ^ 63 - 1 \<le> last_rowid db" by simp
        from submit_feedback_full [OF True this] None show ?thesis by simp
      qed
    qed
  qed
  ultimately show ?thesis by simp
next
  case (Inr msg)
  then have "submit_feedback now f db fb = (Inr msg, snd (submit_feedback now f db fb))"
    by (metis prod.collapse)
  from submit_feedback_InrD [OF this]
  have m: "msg = ''Feedback stored successfully''"
    and d: "snd (submit_feedback now f db fb) =
      \<lparr>feedback = feedback db @ [stored_row now db fb],
       sqlite_sequence = row_id (stored_row now db fb)\<rparr>"
    by blast+
  have "feedback (snd (submit_feedback now f db fb)) = feedback db @ [stored_row now db fb]"
    by (simp add: d)
  moreover have "fst (submit_feedback now f db fb) = Inr ''Feedback stored successfully''"
    using Inr m by simp
  ultimately show ?thesis by auto
qed

lemma submit_feedback_failure_db:
  assumes "fst (submit_feedback now f db fb) = Inl e"
  shows "snd (submit_feedback now f db fb) = db"
proof (cases "invalid_labels_of fb = []")
  case False
  then show ?thesis by (simp add: submit_feedback_invalid)
next
  case True
  show ?thesis
  proof (cases f)
    case (Some e')
    then show ?thesis using True by (simp add: submit_feedback_fault)
  next
    case None
    show ?thesis
    proof (cases "last_rowid db < 2 ^ 63 - 1")
      case room: True
      with True None assms show ?thesis by (simp add: submit_feedback_stored)
    next
      case False
      then have "2 ^ 63 - 1 \<le> last_rowid db" by simp
      from submit_feedback_full [OF True this] None show ?thesis by simp
    qed
  qed
qed

text \<open>What the dispatcher does with the outcome of each handler.\<close>

lemma handle_Submit:
  "fst (handle env (Submit fb) db) =
     map_sum Raised Message (fst (submit_feedback (clock env) (db_fault env) db fb))"
  "snd (handle env (Submit fb) db) = snd (submit_feedback (clock env) (db_fault env) db fb)"
  by (simp_all split: prod.splits sum.splits)

lemma handle_Stats:
  "fst (handle env Stats db) =
     map_sum Raised TotalFeedbackEntries (fst (get_feedback_stats (db_fault env) db))"
  "snd (handle env Stats db) = db"
  by (simp_all add: get_feedback_stats_def split: prod.splits sum.splits option.splits)

lemma handle_View_db: "snd (handle env (View l off) db) = db"
proof -
  let ?v = "view_feedback (db_fault env) db
     (case l of None \<Rightarrow> 100 | Some l \<Rightarrow> l) (case off of None \<Rightarrow> 0 | Some off \<Rightarrow> off)"
  have "snd ?v = db" by (rule view_feedback_db)
  then show ?thesis
    by (cases ?v) (auto split: sum.splits option.splits)
qed

lemma handle_Classify_db: "snd (handle env (Classify c) db) = db"
  by (simp split: sum.splits)

text \<open>
  Claim C9. For every request and store state: a request other than a submission leaves
  the database as it was; every request leaves the rows that were stored in place and
  unchanged, as a prefix of the table, followed by at most one new row, and a new row
  appears only for a submission that succeeded. A failed submission leaves the database as
  it was.
\<close>

theorem stored_rows_immutable:
  "((\<forall>fb. req \<noteq> Submit fb) \<longrightarrow> snd (handle env req db) = db)
   \<and> (\<exists>new. feedback (snd (handle env req db)) = feedback db @ new \<and> length new \<le> 1
         \<and> (new \<noteq> [] \<longrightarrow>
              (\<exists>fb. req = Submit fb)
              \<and> fst (handle env req db) = Inr (Message ''Feedback stored successfully'')))
   \<and> (\<forall>e. fst (handle env req db) = Inl e \<longrightarrow> snd (handle env req db) = db)
   \<and> snd (get_feedback_stats f db) = db
   \<and> snd (view_feedback f db limit offset) = db"
proof (cases req)
  case Root
  then show ?thesis by (simp add: get_feedback_stats_db view_feedback_db)
next
  case (Classify c)
  then show ?thesis
    by (simp only: handle_Classify_db get_feedback_stats_db view_feedback_db) simp
next
  case (Submit fb)
  from submit_feedback_appends [of "clock env" "db_fault env" db fb] obtain new where
    n: "feedback (snd (submit_feedback (clock env) (db_fault env) db fb)) = feedback db @ new"
       "length new \<le> 1"
       "new \<noteq> [] \<longrightarrow> fst (submit_feedback (clock env) (db_fault env) db fb)
           = Inr ''Feedback stored successfully''"
    by blast
  have a: "\<exists>new. feedback (snd (handle env req db)) = feedback db @ new \<and> length new \<le> 1
         \<and> (new \<noteq> [] \<longrightarrow>
              (\<exists>fb. req = Submit fb)
              \<and> fst (handle env req db) = Inr (Message ''Feedback stored successfully''))"
    using n Submit by (intro exI [of _ new]) (simp add: handle_Submit del: handle.simps)
  have b: "\<forall>e. fst (handle env req db) = Inl e \<longrightarrow> snd (handle env req db) = db"
  proof (intro allI impI)
    fix e assume "fst (handle env req db) = Inl e"
    with Submit have "\<exists>e'. fst (submit_feedback (clock env) (db_fault env) db fb) = Inl e'"
      by (cases "fst (submit_feedback (clock env) (db_fault env) db fb)")
         (simp_all add: handle_Submit del: handle.simps)
    then obtain e' where "fst (submit_feedback (clock env) (db_fault env) db fb) = Inl e'" by blast
    from submit_feedback_failure_db [OF this] Submit show "snd (handle env req db) = db"
      by (simp add: handle_Submit del: handle.simps)
  qed
  from a b Submit show ?thesis by (simp add: get_feedback_stats_db view_feedback_db)
next
  case Stats
  then show ?thesis
    by (simp only: handle_Stats get_feedback_stats_db view_feedback_db) simp
next
  case (View l off)
  then show ?thesis
    by (simp only: handle_View_db get_feedback_stats_db view_feedback_db) simp
qed

text \<open>
  The theorem at a table of one row: a count and a listing leave the database as it was,
  and a submission keeps the stored row in place and adds one row after it.
\<close>

theorem stored_rows_immutable_witness:
  "snd (handle \<lparr>sigmoid = sigmoid_exact,
               model = (\<lambda>_. Inr [Finite 0, Finite 0, Finite 0, Finite 0, Finite 0, Finite 0]),
               clock = ''2024-05-02 09:30:00'', db_fault = None,
               parses_datetime = (\<lambda>_. True), nonfinite_as_null = False\<rparr>
          Stats
          \<lparr>feedback = [\<lparr>row_id = 1, row_comment = ''you are bad'', toxic = 1, severe_toxic = 0,
             obscene = 0, threat = 0, insult = 1, identity_hate = 0,
             timestamp = ''2024-05-01 10:00:00''\<rparr>], sqlite_sequence = 1\<rparr>)
     = \<lparr>feedback = [\<lparr>row_id = 1, row_comment = ''you are bad'', toxic = 1, severe_toxic = 0,
             obscene = 0, threat = 0, insult = 1, identity_hate = 0,
             timestamp = ''2024-05-01 10:00:00''\<rparr>], sqlite_sequence = 1\<rparr>
   \<and> feedback (snd (handle
          \<lparr>sigmoid = sigmoid_exact,
           model = (\<lambda>_. Inr [Finite 0, Finite 0, Finite 0, Finite 0, Finite 0, Finite 0]),
           clock = ''2024-05-02 09:30:00'', db_fault = None,
           parses_datetime = (\<lambda>_. True), nonfinite_as_null = False\<rparr>
          (Submit \<lparr>comment = ''threat!'', expected_labels = [''threat'']\<rparr>)
          \<lparr>feedback = [\<lparr>row_id = 1, row_comment = ''you are bad'', toxic = 1, severe_toxic = 0,
             obscene = 0, threat = 0, insult = 1, identity_hate = 0,
             timestamp = ''2024-05-01 10:00:00''\<rparr>], sqlite_sequence = 1\<rparr>))
     = [\<lparr>row_id = 1, row_comment = ''you are bad'', toxic = 1, severe_toxic = 0,
             obscene = 0, threat = 0, insult = 1, identity_hate = 0,
             timestamp = ''2024-05-01 10:00:00''\<rparr>,
        \<lparr>row_id = 2, row_comment = ''threat!'', toxic = 0, severe_toxic = 0,
             obscene = 0, threat = 1, insult = 0, identity_hate = 0,
             timestamp = ''2024-05-02 09:30:00''\<rparr>]"
proof -
  let ?env = "\<lparr>sigmoid = sigmoid_exact,
               model = (\<lambda>_. Inr [Finite 0, Finite 0, Finite 0, Finite 0, Finite 0, Finite 0]),
               clock = ''2024-05-02 09:30:00'', db_fault = None,
               parses_datetime = (\<lambda>_. True), nonfinite_as_null = False\<rparr>"
  let ?db = "\<lparr>feedback = [\<lparr>row_id = 1, row_comment = ''you are bad'', toxic = 1, severe_toxic = 0,
             obscene = 0, threat = 0, insult = 1, identity_hate = 0,
             timestamp = ''2024-05-01 10:00:00''\<rparr>], sqlite_sequence = 1\<rparr>"
  have a: "\<forall>fb. Stats \<noteq> Submit fb" by simp
  from stored_rows_immutable [of Stats ?env ?db None 0 0] a
  have s: "snd (handle ?env Stats ?db) = ?db" by blast
  have t: "feedback (snd (handle ?env
              (Submit \<lparr>comment = ''threat!'', expected_labels = [''threat'']\<rparr>) ?db))
     = [\<lparr>row_id = 1, row_comment = ''you are bad'', toxic = 1, severe_toxic = 0,
             obscene = 0, threat = 0, insult = 1, identity_hate = 0,
             timestamp = ''2024-05-01 10:00:00''\<rparr>,
        \<lparr>row_id = 2, row_comment = ''threat!'', toxic = 0, severe_toxic = 0,
             obscene = 0, threat = 1, insult = 0, identity_hate = 0,
             timestamp = ''2024-05-02 09:30:00''\<rparr>]"
    by (simp add: submit_feedback_def LABELS_def sql_insert_def max_rowid_def)
  from s t show ?thesis by blast
qed

section \<open>Negative limit and offset\<close>

text \<open>
  Claim C10, as the code has it. \<^verbatim>\<open>view_feedback\<close> passes \<^verbatim>\<open>limit\<close> and \<^verbatim>\<open>offset\<close> to the
  statement unchecked. When the database file works and both values fit a signed 64-bit
  integer, a negative limit returns all rows that remain after the offset, and a negative
  offset gives the result of offset zero. A limit below \<open>-2\<^sup>6\<^sup>3\<close> cannot be bound: the
  request fails with status 500.
\<close>

theorem view_negative_limit_offset:
  "(- (2 ^ 63) \<le> limit \<and> limit < 0 \<and> - (2 ^ 63) \<le> offset \<and> offset < 2 ^ 63 \<longrightarrow>
      view_feedback None db limit offset = (Inr (drop (nat offset) (feedback db)), db))
   \<and> (- (2 ^ 63) \<le> limit \<and> limit < 0 \<and> - (2 ^ 63) \<le> offset \<and> offset < 0 \<longrightarrow>
      view_feedback None db limit offset = (Inr (feedback db), db))
   \<and> (- (2 ^ 63) \<le> limit \<and> limit < 2 ^ 63 \<and> - (2 ^ 63) \<le> offset \<and> offset < 0 \<longrightarrow>
      view_feedback None db limit offset = view_feedback None db limit 0)
   \<and> (limit < - (2 ^ 63) \<longrightarrow>
      view_feedback None db limit offset =
        (Inl (HTTPException 500
           ''Failed to retrieve feedback: Python int too large to convert to SQLite INTEGER''), db))"
proof -
  have a: "- (2 ^ 63) \<le> limit \<and> limit < 0 \<and> - (2 ^ 63) \<le> offset \<and> offset < 2 ^ 63 \<longrightarrow>
      view_feedback None db limit offset = (Inr (drop (nat offset) (feedback db)), db)"
    by (simp add: view_feedback_rows)
  have b: "- (2 ^ 63) \<le> limit \<and> limit < 0 \<and> - (2 ^ 63) \<le> offset \<and> offset < 0 \<longrightarrow>
      view_feedback None db limit offset = (Inr (feedback db), db)"
    by (simp add: view_feedback_rows)
  have c: "- (2 ^ 63) \<le> limit \<and> limit < 2 ^ 63 \<and> - (2 ^ 63) \<le> offset \<and> offset < 0 \<longrightarrow>
      view_feedback None db limit offset = view_feedback None db limit 0"
    by (simp add: view_feedback_rows)
  have d: "limit < - (2 ^ 63) \<longrightarrow>
      view_feedback None db limit offset =
        (Inl (HTTPException 500
           ''Failed to retrieve feedback: Python int too large to convert to SQLite INTEGER''), db)"
    by (simp add: view_feedback_overflow)
  from a b c d show ?thesis by blast
qed

text \<open>
  The theorem at a table of two rows: limit \<open>-1\<close> with offset 1 returns the second row,
  and limit \<open>-1\<close> with offset \<open>-5\<close> returns both.
\<close>

theorem view_negative_limit_offset_witness:
  "view_feedback None
      \<lparr>feedback = [\<lparr>row_id = 1, row_comment = ''a'', toxic = 1, severe_toxic = 0,
             obscene = 0, threat = 0, insult = 0, identity_hate = 0, timestamp = ''t1''\<rparr>,
           \<lparr>row_id = 2, row_comment = ''b'', toxic = 0, severe_toxic = 0,
             obscene = 0, threat = 0, insult = 0, identity_hate = 0, timestamp = ''t2''\<rparr>],
       sqlite_sequence = 2\<rparr> (- 1) 1
     = (Inr [\<lparr>row_id = 2, row_comment = ''b'', toxic = 0, severe_toxic = 0,
             obscene = 0, threat = 0, insult = 0, identity_hate = 0, timestamp = ''t2''\<rparr>],
        \<lparr>feedback = [\<lparr>row_id = 1, row_comment = ''a'', toxic = 1, severe_toxic = 0,
             obscene = 0, threat = 0, insult = 0, identity_hate = 0, timestamp = ''t1''\<rparr>,
           \<lparr>row_id = 2, row_comment = ''b'', toxic = 0, severe_toxic = 0,
             obscene = 0, threat = 0, insult = 0, identity_hate = 0, timestamp = ''t2''\<rparr>],
         sqlite_sequence = 2\<rparr>)
   \<and> view_feedback None
      \<lparr>feedback = [\<lparr>row_id = 1, row_comment = ''a'', toxic = 1, severe_toxic = 0,
             obscene = 0, threat = 0, insult = 0, identity_hate = 0, timestamp = ''t1''\<rparr>,
           \<lparr>row_id = 2, row_comment = ''b'', toxic = 0, severe_toxic = 0,
             obscene = 0, threat = 0, insult = 0, identity_hate = 0, timestamp = ''t2''\<rparr>],
       sqlite_sequence = 2\<rparr> (- 1) (- 5)
     = (Inr [\<lparr>row_id = 1, row_comment = ''a'', toxic = 1, severe_toxic = 0,
             obscene = 0, threat = 0, insult = 0, identity_hate = 0, timestamp = ''t1''\<rparr>,
           \<lparr>row_id = 2, row_comment = ''b'', toxic = 0, severe_toxic = 0,
             obscene = 0, threat = 0, insult = 0, identity_hate = 0, timestamp = ''t2''\<rparr>],
        \<lparr>feedback = [\<lparr>row_id = 1, row_comment = ''a'', toxic = 1, severe_toxic = 0,
             obscene = 0, threat = 0, insult = 0, identity_hate = 0, timestamp = ''t1''\<rparr>,
           \<lparr>row_id = 2, row_comment = ''b'', toxic = 0, severe_toxic = 0,
             obscene = 0, threat = 0, insult = 0, identity_hate = 0, timestamp = ''t2''\<rparr>],
         sqlite_sequence = 2\<rparr>)"
proof -
  let ?db = "\<lparr>feedback = [\<lparr>row_id = 1, row_comment = ''a'', toxic = 1, severe_toxic = 0,
             obscene = 0, threat = 0, insult = 0, identity_hate = 0, timestamp = ''t1''\<rparr>,
           \<lparr>row_id = 2, row_comment = ''b'', toxic = 0, severe_toxic = 0,
             obscene = 0, threat = 0, insult = 0, identity_hate = 0, timestamp = ''t2''\<rparr>],
       sqlite_sequence = 2\<rparr>"
  have r1: "- (2 ^ 63) \<le> (- 1 :: int) \<and> (- 1 :: int) < 0 \<and> - (2 ^ 63) \<le> (1 :: int)
      \<and> (1 :: int) < 2 ^ 63" by simp
  have r2: "- (2 ^ 63) \<le> (- 1 :: int) \<and> (- 1 :: int) < 0 \<and> - (2 ^ 63) \<le> (- 5 :: int)
      \<and> (- 5 :: int) < 0" by simp
  from view_negative_limit_offset [of "- 1" 1 ?db] r1
  have a: "view_feedback None ?db (- 1) 1 = (Inr (drop (nat 1) (feedback ?db)), ?db)" by blast
  from view_negative_limit_offset [of "- 1" "- 5" ?db] r2
  have b: "view_feedback None ?db (- 1) (- 5) = (Inr (feedback ?db), ?db)" by blast
  from a b show ?thesis by simp
qed

text \<open>
  Where the claim as stated fails: the negative limit \<open>-2\<^sup>6\<^sup>3 - 1\<close> on a table of one row
  does not return the rows after the offset; the request fails.
\<close>

theorem view_negative_limit_overflow:
  "view_feedback None
      \<lparr>feedback = [\<lparr>row_id = 1, row_comment = ''a'', toxic = 1, severe_toxic = 0,
             obscene = 0, threat = 0, insult = 0, identity_hate = 0, timestamp = ''t1''\<rparr>],
       sqlite_sequence = 1\<rparr> (- (2 ^ 63) - 1) 0
     = (Inl (HTTPException 500
          ''Failed to retrieve feedback: Python int too large to convert to SQLite INTEGER''),
        \<lparr>feedback = [\<lparr>row_id = 1, row_comment = ''a'', toxic = 1, severe_toxic = 0,
             obscene = 0, threat = 0, insult = 0, identity_hate = 0, timestamp = ''t1''\<rparr>],
         sqlite_sequence = 1\<rparr>)"
  by (simp add: view_feedback_def sql_select_def bind_int_def)

section \<open>Error categories\<close>




















section \<open>Pagination\<close>

lemma max_rowid_Nil: "max_rowid [] = 0"
  by (simp add: max_rowid_def)

lemma max_rowid_snoc: "max_rowid (rs @ [r]) = max (row_id r) (max_rowid rs)"
  by (simp add: max_rowid_def)

lemma page_sorted:
  assumes "sorted_wrt (<) (map row_id xs)"
  shows "sorted_wrt (<) (map row_id (take n (drop m xs)))
       \<and> (\<forall>s \<in> set (take m xs). \<forall>r \<in> set (take n (drop m xs)). row_id s < row_id r)"
proof -
  have "map row_id (take n (drop m xs)) = take n (drop m (map row_id xs))"
    by (simp add: take_map drop_map)
  with assms have a: "sorted_wrt (<) (map row_id (take n (drop m xs)))"
    by (simp add: sorted_wrt_take sorted_wrt_drop)
  from assms have "sorted_wrt (<) (map row_id (take m xs @ drop m xs))" by simp
  then have "\<forall>s \<in> set (take m xs). \<forall>r \<in> set (drop m xs). row_id s < row_id r"
    unfolding map_append sorted_wrt_append by auto
  then have b: "\<forall>s \<in> set (take m xs). \<forall>r \<in> set (take n (drop m xs)). row_id s < row_id r"
    by (meson in_set_takeD)
  from a b show ?thesis by blast
qed

lemma submit_feedback_next:
  assumes "invalid_labels_of fb = []"
    and "sqlite_sequence db = int (length (feedback db))"
    and "max_rowid (feedback db) = int (length (feedback db))"
    and "length (feedback db) < 5"
  shows "\<exists>r. snd (submit_feedback now None db fb) =
            \<lparr>feedback = feedback db @ [r], sqlite_sequence = int (length (feedback db)) + 1\<rparr>
          \<and> row_id r = int (length (feedback db)) + 1
          \<and> row_comment r = comment fb
          \<and> max_rowid (feedback db @ [r]) = int (length (feedback db)) + 1"
proof -
  let ?r = "stored_row now db fb"
  have l: "last_rowid db = int (length (feedback db))"
    using assms(2,3) by (simp add: last_rowid_def)
  have room: "last_rowid db < 2 ^ 63 - 1"
    using assms(4) by (simp add: l)
  have i: "row_id ?r = int (length (feedback db)) + 1"
    by (simp add: row_id_stored_row l)
  have s: "snd (submit_feedback now None db fb) =
      \<lparr>feedback = feedback db @ [?r], sqlite_sequence = int (length (feedback db)) + 1\<rparr>"
    using i by (simp add: submit_feedback_stored [OF assms(1) room])
  have c: "row_comment ?r = comment fb" by (simp add: stored_row_def)
  have m: "max_rowid (feedback db @ [?r]) = int (length (feedback db)) + 1"
    using i assms(3) by (simp add: max_rowid_snoc)
  from s i c m show ?thesis by blast
qed

lemma five_rows:
  assumes "invalid_labels_of f1 = []" "invalid_labels_of f2 = []" "invalid_labels_of f3 = []"
    "invalid_labels_of f4 = []" "invalid_labels_of f5 = []"
  shows "\<exists>r1 r2 r3 r4 r5.
     snd (submit_feedback t5 None
           (snd (submit_feedback t4 None
             (snd (submit_feedback t3 None
               (snd (submit_feedback t2 None
                 (snd (submit_feedback t1 None (init_db None) f1)) f2)) f3)) f4)) f5)
       = \<lparr>feedback = [r1, r2, r3, r4, r5], sqlite_sequence = 5\<rparr>
     \<and> row_id r1 = 1 \<and> row_id r2 = 2 \<and> row_id r3 = 3 \<and> row_id r4 = 4 \<and> row_id r5 = 5
     \<and> row_comment r1 = comment f1 \<and> row_comment r2 = comment f2 \<and> row_comment r5 = comment f5"
proof -
  let ?db0 = "init_db None"
  have z: "sqlite_sequence ?db0 = int (length (feedback ?db0))"
      "max_rowid (feedback ?db0) = int (length (feedback ?db0))"
      "length (feedback ?db0) < 5"
    by (simp_all add: init_db_def max_rowid_Nil)
  from submit_feedback_next [OF assms(1) z, of t1] obtain r1 where
    d1: "snd (submit_feedback t1 None ?db0 f1) = \<lparr>feedback = [r1], sqlite_sequence = 1\<rparr>"
    and i1: "row_id r1 = 1" and c1: "row_comment r1 = comment f1"
    and m1: "max_rowid [r1] = 1"
    by (auto simp: init_db_def)
  let ?db1 = "\<lparr>feedback = [r1], sqlite_sequence = 1\<rparr>"
  have z1: "sqlite_sequence ?db1 = int (length (feedback ?db1))"
      "max_rowid (feedback ?db1) = int (length (feedback ?db1))"
      "length (feedback ?db1) < 5"
    using m1 by simp_all
  from submit_feedback_next [OF assms(2) z1, of t2] obtain r2 where
    d2: "snd (submit_feedback t2 None ?db1 f2) = \<lparr>feedback = [r1, r2], sqlite_sequence = 2\<rparr>"
    and i2: "row_id r2 = 2" and c2: "row_comment r2 = comment f2"
    and m2: "max_rowid [r1, r2] = 2"
    by auto
  let ?db2 = "\<lparr>feedback = [r1, r2], sqlite_sequence = 2\<rparr>"
  have z2: "sqlite_sequence ?db2 = int (length (feedback ?db2))"
      "max_rowid (feedback ?db2) = int (length (feedback ?db2))"
      "length (feedback ?db2) < 5"
    using m2 by simp_all
  from submit_feedback_next [OF assms(3) z2, of t3] obtain r3 where
    d3: "snd (submit_feedback t3 None ?db2 f3) = \<lparr>feedback = [r1, r2, r3], sqlite_sequence = 3\<rparr>"
    and i3: "row_id r3 = 3"
    and m3: "max_rowid [r1, r2, r3] = 3"
    by auto
  let ?db3 = "\<lparr>feedback = [r1, r2, r3], sqlite_sequence = 3\<rparr>"
  have z3: "sqlite_sequence ?db3 = int (length (feedback ?db3))"
      "max_rowid (feedback ?db3) = int (length (feedback ?db3))"
      "length (feedback ?db3) < 5"
    using m3 by simp_all
  from submit_feedback_next [OF assms(4) z3, of t4] obtain r4 where
    d4: "snd (submit_feedback t4 None ?db3 f4) = \<lparr>feedback = [r1, r2, r3, r4], sqlite_sequence = 4\<rparr>"
    and i4: "row_id r4 = 4"
    and m4: "max_rowid [r1, r2, r3, r4] = 4"
    by auto
  let ?db4 = "\<lparr>feedback = [r1, r2, r3, r4], sqlite_sequence = 4\<rparr>"
  have z4: "sqlite_sequence ?db4 = int (length (feedback ?db4))"
      "max_rowid (feedback ?db4) = int (length (feedback ?db4))"
      "length (feedback ?db4) < 5"
    using m4 by simp_all
  from submit_feedback_next [OF assms(5) z4, of t5] obtain r5 where
    d5: "snd (submit_feedback t5 None ?db4 f5)
           = \<lparr>feedback = [r1, r2, r3, r4, r5], sqlite_sequence = 5\<rparr>"
    and i5: "row_id r5 = 5" and c5: "row_comment r5 = comment f5"
    by auto
  have "snd (submit_feedback t5 None
           (snd (submit_feedback t4 None
             (snd (submit_feedback t3 None
               (snd (submit_feedback t2 None
                 (snd (submit_feedback t1 None (init_db None) f1)) f2)) f3)) f4)) f5)
       = \<lparr>feedback = [r1, r2, r3, r4, r5], sqlite_sequence = 5\<rparr>"
    by (simp only: d1 d2 d3 d4 d5)
  with i1 i2 i3 i4 i5 c1 c2 c5 show ?thesis by blast
qed

text \<open>
  Claim C5, as the code has it. For every store state held in rowid order and every
  non-negative limit and offset: a listing that returns gives the rows after the first
  \<open>offset\<close> rows, at most \<open>limit\<close> of them, in ascending rowid order and with rowids above
  those of the skipped rows. It returns when the database file works and both values are
  below \<open>2\<^sup>6\<^sup>3\<close>; a limit or an offset of \<open>2\<^sup>6\<^sup>3\<close> or more cannot be bound, and the
  listing fails with status 500. After five valid submissions into the empty table the
  rowids are 1 to 5; the listing with limit 2 and offset 0 returns exactly the first two
  rows, and the listing with limit 2 and offset 4 returns exactly one row, the fifth.
\<close>

theorem view_pagination:
  "(table_ok db \<and> 0 \<le> limit \<and> 0 \<le> offset \<and> view_feedback f db limit offset = (Inr rs, d) \<longrightarrow>
       rs = take (nat limit) (drop (nat offset) (feedback db))
     \<and> int (length rs) \<le> limit
     \<and> sorted_wrt (<) (map row_id rs)
     \<and> (\<forall>s \<in> set (take (nat offset) (feedback db)). \<forall>r \<in> set rs. row_id s < row_id r))
   \<and> (0 \<le> limit \<and> limit < 2 ^ 63 \<and> 0 \<le> offset \<and> offset < 2 ^ 63 \<longrightarrow>
       view_feedback None db limit offset =
         (Inr (take (nat limit) (drop (nat offset) (feedback db))), db))
   \<and> (2 ^ 63 \<le> limit \<or> 2 ^ 63 \<le> offset \<longrightarrow>
       view_feedback None db limit offset =
         (Inl (HTTPException 500
            ''Failed to retrieve feedback: Python int too large to convert to SQLite INTEGER''),
          db))
   \<and> (set (expected_labels f1) \<subseteq> set LABELS \<union> {''none''}
      \<and> set (expected_labels f2) \<subseteq> set LABELS \<union> {''none''}
      \<and> set (expected_labels f3) \<subseteq> set LABELS \<union> {''none''}
      \<and> set (expected_labels f4) \<subseteq> set LABELS \<union> {''none''}
      \<and> set (expected_labels f5) \<subseteq> set LABELS \<union> {''none''} \<longrightarrow>
       (\<exists>r1 r2 r3 r4 r5 db5.
          snd (submit_feedback t5 None
              (snd (submit_feedback t4 None
                (snd (submit_feedback t3 None
                  (snd (submit_feedback t2 None
                    (snd (submit_feedback t1 None (init_db None) f1)) f2)) f3)) f4)) f5) = db5
        \<and> feedback db5 = [r1, r2, r3, r4, r5]
        \<and> row_id r1 = 1 \<and> row_id r2 = 2 \<and> row_id r3 = 3 \<and> row_id r4 = 4 \<and> row_id r5 = 5
        \<and> row_comment r1 = comment f1 \<and> row_comment r2 = comment f2
        \<and> row_comment r5 = comment f5
        \<and> view_feedback None db5 2 0 = (Inr [r1, r2], db5)
        \<and> view_feedback None db5 2 4 = (Inr [r5], db5)))"
proof -
  have a: "table_ok db \<and> 0 \<le> limit \<and> 0 \<le> offset \<and> view_feedback f db limit offset = (Inr rs, d) \<longrightarrow>
       rs = take (nat limit) (drop (nat offset) (feedback db))
     \<and> int (length rs) \<le> limit
     \<and> sorted_wrt (<) (map row_id rs)
     \<and> (\<forall>s \<in> set (take (nat offset) (feedback db)). \<forall>r \<in> set rs. row_id s < row_id r)"
  proof
    assume h: "table_ok db \<and> 0 \<le> limit \<and> 0 \<le> offset
      \<and> view_feedback f db limit offset = (Inr rs, d)"
    then have v: "view_feedback f db limit offset = (Inr rs, d)" and l: "0 \<le> limit"
      and t: "sorted_wrt (<) (map row_id (feedback db))"
      by (simp_all add: table_ok_def)
    from view_feedback_InrD [OF v] l
    have rs: "rs = take (nat limit) (drop (nat offset) (feedback db))" by simp
    have len: "int (length rs) \<le> limit" using l by (simp add: rs)
    from page_sorted [OF t, of "nat limit" "nat offset"] rs len
    show "rs = take (nat limit) (drop (nat offset) (feedback db))
     \<and> int (length rs) \<le> limit
     \<and> sorted_wrt (<) (map row_id rs)
     \<and> (\<forall>s \<in> set (take (nat offset) (feedback db)). \<forall>r \<in> set rs. row_id s < row_id r)"
      by blast
  qed
  have b: "0 \<le> limit \<and> limit < 2 ^ 63 \<and> 0 \<le> offset \<and> offset < 2 ^ 63 \<longrightarrow>
       view_feedback None db limit offset =
         (Inr (take (nat limit) (drop (nat offset) (feedback db))), db)"
    by (simp add: view_feedback_rows)
  have o: "2 ^ 63 \<le> limit \<or> 2 ^ 63 \<le> offset \<longrightarrow>
       view_feedback None db limit offset =
         (Inl (HTTPException 500
            ''Failed to retrieve feedback: Python int too large to convert to SQLite INTEGER''),
          db)"
  proof
    assume "2 ^ 63 \<le> limit \<or> 2 ^ 63 \<le> offset"
    then have "\<not> (- (2 ^ 63) \<le> limit \<and> limit < 2 ^ 63 \<and> - (2 ^ 63) \<le> offset \<and> offset < 2 ^ 63)"
      by auto
    then show "view_feedback None db limit offset =
         (Inl (HTTPException 500
            ''Failed to retrieve feedback: Python int too large to convert to SQLite INTEGER''),
          db)"
      by (rule view_feedback_overflow)
  qed
  have c: "set (expected_labels f1) \<subseteq> set LABELS \<union> {''none''}
      \<and> set (expected_labels f2) \<subseteq> set LABELS \<union> {''none''}
      \<and> set (expected_labels f3) \<subseteq> set LABELS \<union> {''none''}
      \<and> set (expected_labels f4) \<subseteq> set LABELS \<union> {''none''}
      \<and> set (expected_labels f5) \<subseteq> set LABELS \<union> {''none''} \<longrightarrow>
       (\<exists>r1 r2 r3 r4 r5 db5.
          snd (submit_feedback t5 None
              (snd (submit_feedback t4 None
                (snd (submit_feedback t3 None
                  (snd (submit_feedback t2 None
                    (snd (submit_feedback t1 None (init_db None) f1)) f2)) f3)) f4)) f5) = db5
        \<and> feedback db5 = [r1, r2, r3, r4, r5]
        \<and> row_id r1 = 1 \<and> row_id r2 = 2 \<and> row_id r3 = 3 \<and> row_id r4 = 4 \<and> row_id r5 = 5
        \<and> row_comment r1 = comment f1 \<and> row_comment r2 = comment f2
        \<and> row_comment r5 = comment f5
        \<and> view_feedback None db5 2 0 = (Inr [r1, r2], db5)
        \<and> view_feedback None db5 2 4 = (Inr [r5], db5))"
  proof
    assume "set (expected_labels f1) \<subseteq> set LABELS \<union> {''none''}
      \<and> set (expected_labels f2) \<subseteq> set LABELS \<union> {''none''}
      \<and> set (expected_labels f3) \<subseteq> set LABELS \<union> {''none''}
      \<and> set (expected_labels f4) \<subseteq> set LABELS \<union> {''none''}
      \<and> set (expected_labels f5) \<subseteq> set LABELS \<union> {''none''}"
    then have v: "invalid_labels_of f1 = []" "invalid_labels_of f2 = []"
      "invalid_labels_of f3 = []" "invalid_labels_of f4 = []" "invalid_labels_of f5 = []"
      by (simp_all add: invalid_labels_of_Nil)
    from five_rows [OF v, of t5 t4 t3 t2 t1] obtain r1 r2 r3 r4 r5 where
      n: "snd (submit_feedback t5 None
              (snd (submit_feedback t4 None
                (snd (submit_feedback t3 None
                  (snd (submit_feedback t2 None
                    (snd (submit_feedback t1 None (init_db None) f1)) f2)) f3)) f4)) f5) = \<lparr>feedback = [r1, r2, r3, r4, r5], sqlite_sequence = 5\<rparr>"
      and i: "row_id r1 = 1" "row_id r2 = 2" "row_id r3 = 3" "row_id r4 = 4" "row_id r5 = 5"
      and k: "row_comment r1 = comment f1" "row_comment r2 = comment f2"
        "row_comment r5 = comment f5"
      by blast
    let ?db5 = "\<lparr>feedback = [r1, r2, r3, r4, r5], sqlite_sequence = 5\<rparr>"
    have f: "feedback ?db5 = [r1, r2, r3, r4, r5]" by simp
    have p: "view_feedback None ?db5 2 0 = (Inr [r1, r2], ?db5)"
      by (simp add: view_feedback_rows)
    have q: "view_feedback None ?db5 2 4 = (Inr [r5], ?db5)"
      by (simp add: view_feedback_rows)
    from n f i k p q show "\<exists>r1 r2 r3 r4 r5 db5.
          snd (submit_feedback t5 None
              (snd (submit_feedback t4 None
                (snd (submit_feedback t3 None
                  (snd (submit_feedback t2 None
                    (snd (submit_feedback t1 None (init_db None) f1)) f2)) f3)) f4)) f5) = db5
        \<and> feedback db5 = [r1, r2, r3, r4, r5]
        \<and> row_id r1 = 1 \<and> row_id r2 = 2 \<and> row_id r3 = 3 \<and> row_id r4 = 4 \<and> row_id r5 = 5
        \<and> row_comment r1 = comment f1 \<and> row_comment r2 = comment f2
        \<and> row_comment r5 = comment f5
        \<and> view_feedback None db5 2 0 = (Inr [r1, r2], db5)
        \<and> view_feedback None db5 2 4 = (Inr [r5], db5)"
      by blast
  qed
  from a b o c show ?thesis by blast
qed

text \<open>
  The theorem at a table of two rows with limit 1 and offset 1 (the second row is
  returned), and at five submissions into the empty table (the rowids of the two pages).
\<close>

theorem view_pagination_witness:
  "table_ok
      \<lparr>feedback =
          [\<lparr>row_id = 1, row_comment = ''a'', toxic = 1, severe_toxic = 0, obscene = 0,
             threat = 0, insult = 0, identity_hate = 0, timestamp = ''t1''\<rparr>,
           \<lparr>row_id = 2, row_comment = ''b'', toxic = 0, severe_toxic = 0, obscene = 0,
             threat = 0, insult = 0, identity_hate = 0, timestamp = ''t2''\<rparr>],
        sqlite_sequence = 2\<rparr>
   \<and> view_feedback None
      \<lparr>feedback =
          [\<lparr>row_id = 1, row_comment = ''a'', toxic = 1, severe_toxic = 0, obscene = 0,
             threat = 0, insult = 0, identity_hate = 0, timestamp = ''t1''\<rparr>,
           \<lparr>row_id = 2, row_comment = ''b'', toxic = 0, severe_toxic = 0, obscene = 0,
             threat = 0, insult = 0, identity_hate = 0, timestamp = ''t2''\<rparr>],
        sqlite_sequence = 2\<rparr> 1 1
     = (Inr [\<lparr>row_id = 2, row_comment = ''b'', toxic = 0, severe_toxic = 0, obscene = 0,
             threat = 0, insult = 0, identity_hate = 0, timestamp = ''t2''\<rparr>],
      \<lparr>feedback =
          [\<lparr>row_id = 1, row_comment = ''a'', toxic = 1, severe_toxic = 0, obscene = 0,
             threat = 0, insult = 0, identity_hate = 0, timestamp = ''t1''\<rparr>,
           \<lparr>row_id = 2, row_comment = ''b'', toxic = 0, severe_toxic = 0, obscene = 0,
             threat = 0, insult = 0, identity_hate = 0, timestamp = ''t2''\<rparr>],
        sqlite_sequence = 2\<rparr>)
   \<and> map row_id (projr (fst (view_feedback None
      (snd (submit_feedback ''2024-05-01 10:00:05'' None
        (snd (submit_feedback ''2024-05-01 10:00:04'' None
          (snd (submit_feedback ''2024-05-01 10:00:03'' None
            (snd (submit_feedback ''2024-05-01 10:00:02'' None
              (snd (submit_feedback ''2024-05-01 10:00:01'' None
                (init_db None)
                \<lparr>comment = ''one'', expected_labels = [''toxic'']\<rparr>))
              \<lparr>comment = ''two'', expected_labels = [''none'']\<rparr>))
            \<lparr>comment = ''three'', expected_labels = []\<rparr>))
          \<lparr>comment = ''four'', expected_labels = [''insult'', ''threat'']\<rparr>))
        \<lparr>comment = ''five'', expected_labels = [''obscene'']\<rparr>)) 2 0))) = [1, 2]
   \<and> map row_id (projr (fst (view_feedback None
      (snd (submit_feedback ''2024-05-01 10:00:05'' None
        (snd (submit_feedback ''2024-05-01 10:00:04'' None
          (snd (submit_feedback ''2024-05-01 10:00:03'' None
            (snd (submit_feedback ''2024-05-01 10:00:02'' None
              (snd (submit_feedback ''2024-05-01 10:00:01'' None
                (init_db None)
                \<lparr>comment = ''one'', expected_labels = [''toxic'']\<rparr>))
              \<lparr>comment = ''two'', expected_labels = [''none'']\<rparr>))
            \<lparr>comment = ''three'', expected_labels = []\<rparr>))
          \<lparr>comment = ''four'', expected_labels = [''insult'', ''threat'']\<rparr>))
        \<lparr>comment = ''five'', expected_labels = [''obscene'']\<rparr>)) 2 4))) = [5]"
proof -
  let ?db = "\<lparr>feedback =
          [\<lparr>row_id = 1, row_comment = ''a'', toxic = 1, severe_toxic = 0, obscene = 0,
             threat = 0, insult = 0, identity_hate = 0, timestamp = ''t1''\<rparr>,
           \<lparr>row_id = 2, row_comment = ''b'', toxic = 0, severe_toxic = 0, obscene = 0,
             threat = 0, insult = 0, identity_hate = 0, timestamp = ''t2''\<rparr>],
        sqlite_sequence = 2\<rparr>"
  let ?db5 = "snd (submit_feedback ''2024-05-01 10:00:05'' None
        (snd (submit_feedback ''2024-05-01 10:00:04'' None
          (snd (submit_feedback ''2024-05-01 10:00:03'' None
            (snd (submit_feedback ''2024-05-01 10:00:02'' None
              (snd (submit_feedback ''2024-05-01 10:00:01'' None
                (init_db None)
                \<lparr>comment = ''one'', expected_labels = [''toxic'']\<rparr>))
              \<lparr>comment = ''two'', expected_labels = [''none'']\<rparr>))
            \<lparr>comment = ''three'', expected_labels = []\<rparr>))
          \<lparr>comment = ''four'', expected_labels = [''insult'', ''threat'']\<rparr>))
        \<lparr>comment = ''five'', expected_labels = [''obscene'']\<rparr>)"
  have t: "table_ok ?db" by (simp add: table_ok_def)
  have r: "(0::int) \<le> 1 \<and> (1::int) < 2 ^ 63 \<and> (0::int) \<le> 1 \<and> (1::int) < 2 ^ 63" by simp
  from view_pagination [of ?db 1 1] r
  have "view_feedback None ?db 1 1 = (Inr (take (nat 1) (drop (nat 1) (feedback ?db))), ?db)"
    by blast
  then have a: "view_feedback None ?db 1 1 = (Inr [\<lparr>row_id = 2, row_comment = ''b'', toxic = 0, severe_toxic = 0, obscene = 0,
             threat = 0, insult = 0, identity_hate = 0, timestamp = ''t2''\<rparr>], ?db)"
    by simp
  have v: "set (expected_labels \<lparr>comment = ''one'', expected_labels = [''toxic'']\<rparr>) \<subseteq> set LABELS \<union> {''none''}
      \<and> set (expected_labels \<lparr>comment = ''two'', expected_labels = [''none'']\<rparr>) \<subseteq> set LABELS \<union> {''none''}
      \<and> set (expected_labels \<lparr>comment = ''three'', expected_labels = []\<rparr>) \<subseteq> set LABELS \<union> {''none''}
      \<and> set (expected_labels \<lparr>comment = ''four'', expected_labels = [''insult'', ''threat'']\<rparr>) \<subseteq> set LABELS \<union> {''none''}
      \<and> set (expected_labels \<lparr>comment = ''five'', expected_labels = [''obscene'']\<rparr>) \<subseteq> set LABELS \<union> {''none''}"
    by (simp add: LABELS_def)
  note five = conjunct2 [OF conjunct2 [OF conjunct2 [OF view_pagination [of ?db 1 1 None "[]" ?db
      "\<lparr>comment = ''one'', expected_labels = [''toxic'']\<rparr>" "\<lparr>comment = ''two'', expected_labels = [''none'']\<rparr>"
      "\<lparr>comment = ''three'', expected_labels = []\<rparr>" "\<lparr>comment = ''four'', expected_labels = [''insult'', ''threat'']\<rparr>"
      "\<lparr>comment = ''five'', expected_labels = [''obscene'']\<rparr>"
      "''2024-05-01 10:00:05''" "''2024-05-01 10:00:04''" "''2024-05-01 10:00:03''" "''2024-05-01 10:00:02''" "''2024-05-01 10:00:01''"]]]]
  from mp [OF five v]
  obtain r1 r2 r3 r4 r5 db5 where
    n: "?db5 = db5"
    and i: "row_id r1 = 1" "row_id r2 = 2" "row_id r5 = 5"
    and p: "view_feedback None db5 2 0 = (Inr [r1, r2], db5)"
    and q: "view_feedback None db5 2 4 = (Inr [r5], db5)"
    by blast
  have b: "map row_id (projr (fst (view_feedback None ?db5 2 0))) = [1, 2]"
    by (simp only: n p fst_conv sum.sel list.map i)
  have c: "map row_id (projr (fst (view_feedback None ?db5 2 4))) = [5]"
    by (simp only: n q fst_conv sum.sel list.map i)
  from t a b c show ?thesis by blast
qed

text \<open>
  Where the claim as stated fails: the limit \<open>2\<^sup>6\<^sup>3\<close> is a non-negative integer and the
  database file works, yet the listing of a table of one row returns no rows; it fails.
\<close>

theorem view_limit_overflow:
  "view_feedback None
      \<lparr>feedback = [\<lparr>row_id = 1, row_comment = ''a'', toxic = 1, severe_toxic = 0,
             obscene = 0, threat = 0, insult = 0, identity_hate = 0, timestamp = ''t1''\<rparr>],
       sqlite_sequence = 1\<rparr> (2 ^ 63) 0
     = (Inl (HTTPException 500
          ''Failed to retrieve feedback: Python int too large to convert to SQLite INTEGER''),
        \<lparr>feedback = [\<lparr>row_id = 1, row_comment = ''a'', toxic = 1, severe_toxic = 0,
             obscene = 0, threat = 0, insult = 0, identity_hate = 0, timestamp = ''t1''\<rparr>],
         sqlite_sequence = 1\<rparr>)"
  by (simp add: view_feedback_def sql_select_def bind_int_def)

end
